theory Spec2Isabelle
  imports Complex_Main
begin

section \<open>JavaScript values used by the adapter\<close>

text \<open>
  A JavaScript string is a sequence of UTF-16 code units.  A literal of the source such as
  \<^verbatim>\<open>'data: '\<close> is written \<open>js ''data: ''\<close>.
\<close>

type_synonym jsstring = "nat list"

definition js :: "string \<Rightarrow> jsstring" where
  "js s = map of_char s"

text \<open>
  The errors the code can raise: \<^verbatim>\<open>new Error(message)\<close> of the source itself, the
  \<^verbatim>\<open>TypeError\<close> of the engine when a property of \<^verbatim>\<open>undefined\<close> or \<^verbatim>\<open>null\<close> is read
  (carrying the name of the property read; the wording of the engine's message is not
  modelled), and the \<^verbatim>\<open>SyntaxError\<close> of \<^verbatim>\<open>JSON.parse\<close>.
\<close>

datatype js_error = Error jsstring | TypeError jsstring | SyntaxError jsstring

text \<open>
  What \<^verbatim>\<open>JSON.parse\<close> returns and what property reads on it produce.  Finite numbers are
  rationals; \<open>Undefined\<close> is never returned by \<^verbatim>\<open>JSON.parse\<close> but is what reading an
  absent property gives.
\<close>

datatype jsval =
    Undefined
  | JNull
  | JBool bool
  | JNum rat
  | JStr jsstring
  | JArr "jsval list"
  | JObj "(jsstring \<times> jsval) list"

text \<open>
  \<^verbatim>\<open>v.key\<close> for the keys the source reads (\<^verbatim>\<open>choices\<close>, \<^verbatim>\<open>message\<close>, \<^verbatim>\<open>delta\<close>,
  \<^verbatim>\<open>content\<close>, \<^verbatim>\<open>index\<close>, \<^verbatim>\<open>finish_reason\<close>): none of them is a built-in property of
  a string, a number, a boolean or an array, so on those the read gives \<^verbatim>\<open>undefined\<close>.
\<close>

fun get_prop :: "jsval \<Rightarrow> jsstring \<Rightarrow> js_error + jsval" where
  "get_prop Undefined key = Inl (TypeError key)"
| "get_prop JNull key = Inl (TypeError key)"
| "get_prop (JObj kvs) key = Inr (case map_of kvs key of None \<Rightarrow> Undefined | Some v \<Rightarrow> v)"
| "get_prop v key = Inr Undefined"

text \<open>\<^verbatim>\<open>v[0]\<close>: the first element of an array, the first code unit of a string, the
  property \<^verbatim>\<open>"0"\<close> of an object.\<close>

fun get_index0 :: "jsval \<Rightarrow> js_error + jsval" where
  "get_index0 Undefined = Inl (TypeError (js ''0''))"
| "get_index0 JNull = Inl (TypeError (js ''0''))"
| "get_index0 (JArr []) = Inr Undefined"
| "get_index0 (JArr (x # xs)) = Inr x"
| "get_index0 (JStr []) = Inr Undefined"
| "get_index0 (JStr (c # cs)) = Inr (JStr [c])"
| "get_index0 (JObj kvs) = Inr (case map_of kvs (js ''0'') of None \<Rightarrow> Undefined | Some v \<Rightarrow> v)"
| "get_index0 v = Inr Undefined"

fun truthy :: "jsval \<Rightarrow> bool" where
  "truthy Undefined = False"
| "truthy JNull = False"
| "truthy (JBool b) = b"
| "truthy (JNum n) = (n \<noteq> 0)"
| "truthy (JStr s) = (s \<noteq> [])"
| "truthy v = True"

text \<open>\<^verbatim>\<open>v || ''\<close>\<close>

definition or_empty :: "jsval \<Rightarrow> jsval" where
  "or_empty v = (if truthy v then v else JStr [])"

text \<open>Sequencing of steps that may throw: the first error ends the computation.\<close>

definition and_then :: "'e + 'a \<Rightarrow> ('a \<Rightarrow> 'e + 'b) \<Rightarrow> 'e + 'b" where
  "and_then m f = (case m of Inl e \<Rightarrow> Inl e | Inr x \<Rightarrow> f x)"

text \<open>\<^verbatim>\<open>Array.prototype.map\<close> with a callback that may throw: elements are visited in
  order and the first throw ends the call.\<close>

fun array_map :: "('a \<Rightarrow> 'e + 'b) \<Rightarrow> 'a list \<Rightarrow> 'e + 'b list" where
  "array_map f [] = Inr []"
| "array_map f (x # xs) =
     (case f x of
        Inl e \<Rightarrow> Inl e
      | Inr y \<Rightarrow> (case array_map f xs of Inl e \<Rightarrow> Inl e | Inr ys \<Rightarrow> Inr (y # ys)))"

section \<open>The content model\<close>

text \<open>
  A \<^verbatim>\<open>Part\<close> either has the key \<^verbatim>\<open>text\<close> (\<open>TextPart\<close>, which is what \<^verbatim>\<open>'text' in part\<close>
  tests) or carries some other payload only, named by its key (\<^verbatim>\<open>functionCall\<close>,
  \<^verbatim>\<open>inlineData\<close>, ...).  A \<^verbatim>\<open>Content\<close> has an optional role and an optional list of parts.
  The type of the text is a parameter: a string in a request, and in a response whatever
  value the backend sent (the source builds responses \<^verbatim>\<open>as any\<close>).
\<close>

datatype 't Part = TextPart 't | OtherPart jsstring

text \<open>\<^verbatim>\<open>'text' in part\<close>\<close>

fun has_text :: "'t Part \<Rightarrow> bool" where
  "has_text (TextPart t) = True"
| "has_text (OtherPart k) = False"

record 't Content =
  role :: "jsstring option"
  parts :: "'t Part list option"

datatype OpenAIRole = User | Assistant | System | Tool

record OpenAIChatCompletionContentPart =
  part_type :: jsstring
  part_text :: jsstring

record OpenAIChatCompletionMessageParam =
  msg_role :: OpenAIRole
  msg_content :: jsstring

text \<open>The template literal \<^verbatim>\<open>${role}\<close> of an optional string.\<close>

definition show_role :: "jsstring option \<Rightarrow> jsstring" where
  "show_role r = (case r of None \<Rightarrow> js ''undefined'' | Some s \<Rightarrow> s)"

definition toOpenAIRole :: "jsstring option \<Rightarrow> js_error + OpenAIRole" where
  "toOpenAIRole r =
     (if r = Some (js ''user'') then Inr User
      else if r = Some (js ''model'') then Inr Assistant
      else Inl (Error (js ''Unsupported role: '' @ show_role r)))"

fun toOpenAIPart :: "jsstring Part \<Rightarrow> js_error + OpenAIChatCompletionContentPart" where
  "toOpenAIPart (TextPart t) = Inr \<lparr>part_type = js ''text'', part_text = t\<rparr>"
| "toOpenAIPart (OtherPart k) = Inl (Error (js ''Unsupported part type''))"

text \<open>
  \<^verbatim>\<open>content.parts?.map(toOpenAIPart) || []\<close> maps every part (so any part that is not text
  throws), and gives the empty array when \<^verbatim>\<open>parts\<close> is absent.  \<^verbatim>\<open>parts[0]\<close> of an empty
  array is \<^verbatim>\<open>undefined\<close>, and reading \<^verbatim>\<open>.type\<close> of it is the engine's \<^verbatim>\<open>TypeError\<close>.
\<close>

definition toOpenAIChatCompletionMessage :: "jsstring Content \<Rightarrow> js_error + OpenAIChatCompletionMessageParam" where
  "toOpenAIChatCompletionMessage c =
     and_then (toOpenAIRole (role c)) (\<lambda>r.
     and_then (case parts c of None \<Rightarrow> Inr [] | Some ps \<Rightarrow> array_map toOpenAIPart ps) (\<lambda>ps.
       (case ps of
          [] \<Rightarrow> Inl (TypeError (js ''type''))
        | messagePart # rest \<Rightarrow>
            if part_type messagePart = js ''text''
            then Inr \<lparr>msg_role = r, msg_content = part_text messagePart\<rparr>
            else Inl (Error (js ''Unsupported part type'')))))"

section \<open>Responses of the generic contract\<close>

record PromptFeedback =
  blockReason :: jsval
  feedback_safetyRatings :: "jsval list"

record Candidate =
  index :: jsval
  content :: "jsval Content"
  finishReason :: jsval
  safetyRatings :: "jsval list"
  citationMetadata :: jsval

record GenerateContentResponse =
  promptFeedback :: PromptFeedback
  candidates :: "Candidate list"

text \<open>The object literal that both \<^verbatim>\<open>generateContent\<close> and the generator build, given the
  three values they read from the choice.\<close>

definition response_literal :: "jsval \<Rightarrow> jsval \<Rightarrow> jsval \<Rightarrow> GenerateContentResponse" where
  "response_literal choice_index part_value finish_reason =
     \<lparr>promptFeedback = \<lparr>blockReason = Undefined, feedback_safetyRatings = []\<rparr>,
      candidates =
        [\<lparr>index = choice_index,
          content = \<lparr>role = Some (js ''model''), parts = Some [TextPart part_value]\<rparr>,
          finishReason = finish_reason,
          safetyRatings = [],
          citationMetadata = Undefined\<rparr>]\<rparr>"

text \<open>Lines 122 to 142 of the source: \<^verbatim>\<open>responseData.choices[0]\<close>, its \<^verbatim>\<open>message\<close>, and the
  literal with \<^verbatim>\<open>message.content || ''\<close>.\<close>

definition message_response :: "jsval \<Rightarrow> js_error + GenerateContentResponse" where
  "message_response responseData =
     and_then (get_prop responseData (js ''choices'')) (\<lambda>choices.
     and_then (get_index0 choices) (\<lambda>choice.
     and_then (get_prop choice (js ''message'')) (\<lambda>message.
     and_then (get_prop choice (js ''index'')) (\<lambda>choice_index.
     and_then (get_prop message (js ''content'')) (\<lambda>message_content.
     and_then (get_prop choice (js ''finish_reason'')) (\<lambda>finish_reason.
       Inr (response_literal choice_index (or_empty message_content) finish_reason)))))))"

text \<open>Lines 187 to 207 of the source: the same for one streamed payload, read from
  \<^verbatim>\<open>choice.delta\<close>.\<close>

definition delta_response :: "jsval \<Rightarrow> js_error + GenerateContentResponse" where
  "delta_response part =
     and_then (get_prop part (js ''choices'')) (\<lambda>choices.
     and_then (get_index0 choices) (\<lambda>choice.
     and_then (get_prop choice (js ''delta'')) (\<lambda>delta.
     and_then (get_prop choice (js ''index'')) (\<lambda>choice_index.
     and_then (get_prop delta (js ''content'')) (\<lambda>delta_content.
     and_then (get_prop choice (js ''finish_reason'')) (\<lambda>finish_reason.
       Inr (response_literal choice_index (or_empty delta_content) finish_reason)))))))"

section \<open>The platform: environment, transport, JSON and the text decoder\<close>

text \<open>
  A body is read chunk by chunk: each \<^verbatim>\<open>reader.read()\<close> gives a chunk of bytes or rejects,
  and the end of the list is \<^verbatim>\<open>done\<close>.
\<close>

datatype read_event = Chunk "char list" | ReadError js_error

record Response =
  ok :: bool
  status :: nat
  statusText :: jsstring
  body_text :: jsstring
  body :: "read_event list option"

record ChatRequestBody =
  model :: jsstring
  messages :: "OpenAIChatCompletionMessageParam list"
  stream :: bool

record FetchRequest =
  url :: jsstring
  authorization :: jsstring
  request_body :: ChatRequestBody

text \<open>
  What the code takes from its runtime: the environment variables, \<^verbatim>\<open>fetch\<close> and
  \<^verbatim>\<open>JSON.parse\<close>.  They are parameters of the model.  \<open>body_text\<close> is what
  \<^verbatim>\<open>response.text()\<close> resolves to, and \<^verbatim>\<open>response.json()\<close> is \<^verbatim>\<open>JSON.parse\<close> of it.
\<close>

record platform =
  process_env :: "jsstring \<Rightarrow> jsstring option"
  fetch :: "FetchRequest \<Rightarrow> js_error + Response"
  JSON_parse :: "jsstring \<Rightarrow> js_error + jsval"

subsection \<open>\<^verbatim>\<open>TextDecoder\<close> with \<^verbatim>\<open>{stream: true}\<close>\<close>

text \<open>
  The UTF-8 decoder of the Encoding Standard, one byte at a time, in replacement mode
  (\<^verbatim>\<open>fatal\<close> is false): the state holds the code point being assembled, and an
  incomplete sequence at the end of a chunk stays in the state for the next chunk.
\<close>

record utf8_decoder =
  code_point :: nat
  bytes_seen :: nat
  bytes_needed :: nat
  lower_boundary :: nat
  upper_boundary :: nat

definition utf8_initial :: utf8_decoder where
  "utf8_initial =
     \<lparr>code_point = 0, bytes_seen = 0, bytes_needed = 0,
      lower_boundary = 0x80, upper_boundary = 0xBF\<rparr>"

text \<open>The handler when no byte is pending.\<close>

definition utf8_lead :: "utf8_decoder \<Rightarrow> nat \<Rightarrow> utf8_decoder \<times> nat list" where
  "utf8_lead s b =
     (if b \<le> 0x7F then (s, [b])
      else if 0xC2 \<le> b \<and> b \<le> 0xDF then
        (s\<lparr>bytes_needed := 1, code_point := b mod 32\<rparr>, [])
      else if 0xE0 \<le> b \<and> b \<le> 0xEF then
        (s\<lparr>lower_boundary := (if b = 0xE0 then 0xA0 else lower_boundary s),
           upper_boundary := (if b = 0xED then 0x9F else upper_boundary s),
           bytes_needed := 2, code_point := b mod 16\<rparr>, [])
      else if 0xF0 \<le> b \<and> b \<le> 0xF4 then
        (s\<lparr>lower_boundary := (if b = 0xF0 then 0x90 else lower_boundary s),
           upper_boundary := (if b = 0xF4 then 0x8F else upper_boundary s),
           bytes_needed := 3, code_point := b mod 8\<rparr>, [])
      else (s, [0xFFFD]))"

text \<open>One byte: the new state and the code points emitted (U+FFFD for an error; a byte
  that ends a sequence early is read again from the initial state).\<close>

definition utf8_handler :: "utf8_decoder \<Rightarrow> nat \<Rightarrow> utf8_decoder \<times> nat list" where
  "utf8_handler s b =
     (if bytes_needed s = 0 then utf8_lead s b
      else if b < lower_boundary s \<or> upper_boundary s < b then
        (case utf8_lead utf8_initial b of (s', out) \<Rightarrow> (s', 0xFFFD # out))
      else
        (let s1 = s\<lparr>lower_boundary := 0x80, upper_boundary := 0xBF,
                     code_point := code_point s * 64 + b mod 64,
                     bytes_seen := bytes_seen s + 1\<rparr>
         in if bytes_seen s1 \<noteq> bytes_needed s1 then (s1, [])
            else (s1\<lparr>code_point := 0, bytes_needed := 0, bytes_seen := 0\<rparr>, [code_point s1])))"

text \<open>A code point as UTF-16 code units.\<close>

definition utf16_units :: "nat \<Rightarrow> jsstring" where
  "utf16_units cp =
     (if cp < 0x10000 then [cp]
      else [0xD800 + (cp - 0x10000) div 0x400, 0xDC00 + (cp - 0x10000) mod 0x400])"

record TextDecoder =
  decoder_state :: utf8_decoder
  BOM_seen :: bool

definition new_TextDecoder :: TextDecoder where
  "new_TextDecoder = \<lparr>decoder_state = utf8_initial, BOM_seen = False\<rparr>"

text \<open>The code points of one call become a string; a byte order mark that is the first
  code point of the stream is dropped (\<^verbatim>\<open>ignoreBOM\<close> is false).\<close>

fun serialize :: "bool \<Rightarrow> nat list \<Rightarrow> jsstring \<times> bool" where
  "serialize seen [] = ([], seen)"
| "serialize seen (cp # cps) =
     (if \<not> seen \<and> cp = 0xFEFF then serialize True cps
      else (case serialize True cps of (out, seen') \<Rightarrow> (utf16_units cp @ out, seen')))"

definition decode_byte :: "TextDecoder \<Rightarrow> char \<Rightarrow> jsstring \<times> TextDecoder" where
  "decode_byte d b =
     (case utf8_handler (decoder_state d) (of_char b) of
        (s', cps) \<Rightarrow>
          (case serialize (BOM_seen d) cps of
             (out, seen') \<Rightarrow> (out, \<lparr>decoder_state = s', BOM_seen = seen'\<rparr>)))"

text \<open>\<^verbatim>\<open>decoder.decode(value, {stream: true})\<close>: the text decoded from the chunk and the
  decoder afterwards.  Nothing is flushed at the end of a chunk.\<close>

fun decode :: "TextDecoder \<Rightarrow> char list \<Rightarrow> jsstring \<times> TextDecoder" where
  "decode d [] = ([], d)"
| "decode d (b # bs) =
     (case decode_byte d b of
        (out1, d1) \<Rightarrow> (case decode d1 bs of (out2, d2) \<Rightarrow> (out1 @ out2, d2)))"

subsection \<open>String methods\<close>

text \<open>\<^verbatim>\<open>buffer.split('\n')\<close>: the pieces between line feeds; never the empty array.\<close>

fun split_newline :: "jsstring \<Rightarrow> jsstring list" where
  "split_newline [] = [[]]"
| "split_newline (c # cs) =
     (if c = 10 then [] # split_newline cs
      else (case split_newline cs of
              [] \<Rightarrow> [[c]]
            | l # ls \<Rightarrow> (c # l) # ls))"

text \<open>\<^verbatim>\<open>lines.pop()\<close>: the removed last element (\<^verbatim>\<open>undefined\<close> for an empty array) and the
  array that is left.\<close>

definition array_pop :: "'a list \<Rightarrow> 'a option \<times> 'a list" where
  "array_pop xs = (if xs = [] then (None, []) else (Some (last xs), butlast xs))"

definition startsWith :: "jsstring \<Rightarrow> jsstring \<Rightarrow> bool" where
  "startsWith s p = (take (length p) s = p)"

text \<open>The white space and line terminators that \<^verbatim>\<open>String.prototype.trim\<close> removes.\<close>

definition is_js_whitespace :: "nat \<Rightarrow> bool" where
  "is_js_whitespace c =
     (c = 9 \<or> c = 10 \<or> c = 11 \<or> c = 12 \<or> c = 13 \<or> c = 32 \<or> c = 0xA0 \<or> c = 0x1680
      \<or> (0x2000 \<le> c \<and> c \<le> 0x200A) \<or> c = 0x2028 \<or> c = 0x2029 \<or> c = 0x202F
      \<or> c = 0x205F \<or> c = 0x3000 \<or> c = 0xFEFF)"

definition trim :: "jsstring \<Rightarrow> jsstring" where
  "trim s = rev (dropWhile is_js_whitespace (rev (dropWhile is_js_whitespace s)))"

text \<open>A natural number in a template literal: its decimal digits.\<close>

fun show_nat :: "nat \<Rightarrow> jsstring" where
  "show_nat n = (if n < 10 then [48 + n] else show_nat (n div 10) @ [48 + n mod 10])"

declare show_nat.simps [simp del]

section \<open>The generation client\<close>

record OpenAIContentGenerator =
  apiKey :: jsstring
  baseUrl :: jsstring

text \<open>\<^verbatim>\<open>a || b\<close> where \<open>a\<close> is an optional string and \<open>b\<close> a string: an absent and an
  empty \<open>a\<close> are both falsy and give \<open>b\<close>.\<close>

definition or_string :: "jsstring option \<Rightarrow> jsstring \<Rightarrow> jsstring" where
  "or_string a b = (case a of None \<Rightarrow> b | Some s \<Rightarrow> if s = [] then b else s)"

definition new_OpenAIContentGenerator ::
  "platform \<Rightarrow> jsstring option \<Rightarrow> jsstring option \<Rightarrow> js_error + OpenAIContentGenerator" where
  "new_OpenAIContentGenerator p key base =
     (let k = or_string key (or_string (process_env p (js ''OPENAI_API_KEY'')) []);
          b = or_string base
                (or_string (process_env p (js ''OPENAI_BASE_URL'')) (js ''https://api.openai.com/v1''))
      in if k = []
         then Inl (Error (js ''OpenAI API key is not provided. Please set the OPENAI_API_KEY environment variable.''))
         else Inr \<lparr>apiKey = k, baseUrl = b\<rparr>)"

definition fetchAPI ::
  "platform \<Rightarrow> OpenAIContentGenerator \<Rightarrow> ChatRequestBody \<Rightarrow> js_error + Response" where
  "fetchAPI p this b =
     fetch p \<lparr>url = baseUrl this @ js ''/chat/completions'',
              authorization = js ''Bearer '' @ apiKey this,
              request_body = b\<rparr>"

record GenerateContentParameters =
  contents :: "jsstring Content list"

text \<open>The body both entry points send; the model id is \<^verbatim>\<open>process.env.OPENAI_MODEL || ''\<close>.\<close>

definition chat_body ::
  "platform \<Rightarrow> OpenAIChatCompletionMessageParam list \<Rightarrow> bool \<Rightarrow> ChatRequestBody" where
  "chat_body p ms streaming =
     \<lparr>model = or_string (process_env p (js ''OPENAI_MODEL'')) [],
      messages = ms,
      stream = streaming\<rparr>"

text \<open>The message of the error thrown for a reply that is not OK.\<close>

definition api_error_message :: "Response \<Rightarrow> jsstring" where
  "api_error_message response =
     js ''OpenAI API error: '' @ show_nat (status response) @ js '' '' @ statusText response
       @ js '' - '' @ body_text response"

definition generateContent ::
  "platform \<Rightarrow> OpenAIContentGenerator \<Rightarrow> GenerateContentParameters
     \<Rightarrow> js_error + GenerateContentResponse" where
  "generateContent p this request =
     and_then (array_map toOpenAIChatCompletionMessage (contents request)) (\<lambda>ms.
     and_then (fetchAPI p this (chat_body p ms False)) (\<lambda>response.
       if \<not> ok response then Inl (Error (api_error_message response))
       else and_then (JSON_parse p (body_text response)) message_response))"

subsection \<open>The generator of \<^verbatim>\<open>generateContentStream\<close>\<close>

text \<open>
  What the generator does that its consumer or the console sees, in order: a value it
  yields, or an error it caught and passed to \<^verbatim>\<open>console.error\<close>.
\<close>

datatype emission = Yield GenerateContentResponse | ConsoleError js_error

datatype outcome = Completed | Thrown js_error

text \<open>
  The \<^verbatim>\<open>for\<close> loop over the complete lines: the emissions, and whether the loop executed
  \<^verbatim>\<open>return\<close> (the line \<^verbatim>\<open>data: [DONE]\<close>), which ends the generator.
\<close>

fun process_lines ::
  "(jsstring \<Rightarrow> js_error + jsval) \<Rightarrow> jsstring list \<Rightarrow> emission list \<times> bool" where
  "process_lines parse [] = ([], False)"
| "process_lines parse (line # rest) =
     (if startsWith line (js ''data: '') then
        (let data = drop 6 line in
         if trim data = js ''[DONE]'' then ([], True)
         else
           (case and_then (parse data) delta_response of
              Inr r \<Rightarrow> (case process_lines parse rest of (es, fin) \<Rightarrow> (Yield r # es, fin))
            | Inl e \<Rightarrow> (case process_lines parse rest of (es, fin) \<Rightarrow> (ConsoleError e # es, fin))))
      else process_lines parse rest)"

text \<open>
  One round of the \<^verbatim>\<open>while\<close> loop after a chunk was read: decode, append to the buffer,
  split, keep the last piece as the new buffer, process the others.  The result is the
  emissions, whether \<^verbatim>\<open>return\<close> was executed, the decoder and the buffer.
\<close>

definition on_chunk ::
  "(jsstring \<Rightarrow> js_error + jsval) \<Rightarrow> TextDecoder \<Rightarrow> jsstring \<Rightarrow> char list
     \<Rightarrow> emission list \<times> bool \<times> TextDecoder \<times> jsstring" where
  "on_chunk parse d buffer v =
     (case decode d v of
        (decoded, d') \<Rightarrow>
          (case array_pop (split_newline (buffer @ decoded)) of
             (popped, lines) \<Rightarrow>
               (case process_lines parse lines of
                  (es, fin) \<Rightarrow> (es, fin, d', (case popped of None \<Rightarrow> [] | Some s \<Rightarrow> s)))))"

text \<open>The generator run to its end: everything it emits, and how it ends.\<close>

fun generator ::
  "(jsstring \<Rightarrow> js_error + jsval) \<Rightarrow> TextDecoder \<Rightarrow> jsstring \<Rightarrow> read_event list
     \<Rightarrow> emission list \<times> outcome" where
  "generator parse d buffer [] = ([], Completed)"
| "generator parse d buffer (ReadError e # reads) = ([], Thrown e)"
| "generator parse d buffer (Chunk v # reads) =
     (case on_chunk parse d buffer v of
        (es, fin, d', buffer') \<Rightarrow>
          if fin then (es, Completed)
          else (case generator parse d' buffer' reads of (es', out) \<Rightarrow> (es @ es', out)))"

definition generateContentStream ::
  "platform \<Rightarrow> OpenAIContentGenerator \<Rightarrow> GenerateContentParameters
     \<Rightarrow> js_error + emission list \<times> outcome" where
  "generateContentStream p this request =
     and_then (array_map toOpenAIChatCompletionMessage (contents request)) (\<lambda>ms.
     and_then (fetchAPI p this (chat_body p ms True)) (\<lambda>response.
       (case body response of
          None \<Rightarrow> Inl (Error (api_error_message response))
        | Some reads \<Rightarrow>
            if \<not> ok response then Inl (Error (api_error_message response))
            else Inr (generator (JSON_parse p) new_TextDecoder [] reads))))"

text \<open>The values a consumer of the generator receives.\<close>

fun yielded :: "emission list \<Rightarrow> GenerateContentResponse list" where
  "yielded [] = []"
| "yielded (Yield r # es) = r # yielded es"
| "yielded (ConsoleError e # es) = yielded es"

section \<open>Notions used to state the properties\<close>

text \<open>The text of a sequence of complete lines: each line followed by a line feed.\<close>

definition lines_text :: "jsstring list \<Rightarrow> jsstring" where
  "lines_text ls = concat (map (\<lambda>l. l @ [10]) ls)"

text \<open>The value the generator reads as \<^verbatim>\<open>part.choices[0].delta.content\<close>.\<close>

definition delta_content :: "jsval \<Rightarrow> js_error + jsval" where
  "delta_content part =
     and_then (get_prop part (js ''choices'')) (\<lambda>choices.
     and_then (get_index0 choices) (\<lambda>choice.
     and_then (get_prop choice (js ''delta'')) (\<lambda>delta.
       get_prop delta (js ''content''))))"

text \<open>
  Payloads that parse as JSON but give the generator no delta to read the content from:
  the payload is not an object; or it has no \<^verbatim>\<open>choices\<close> (the key is absent, or its value is
  \<^verbatim>\<open>null\<close>, a number or a boolean); or \<^verbatim>\<open>choices\<close> has no first element (an empty array, an
  empty string, an object without the key \<^verbatim>\<open>0\<close>); or the first element has no \<^verbatim>\<open>delta\<close> (it
  is not an object, or the key is absent or \<^verbatim>\<open>null\<close>).
\<close>

fun no_delta :: "jsval \<Rightarrow> bool" where
  "no_delta (JObj kvs) =
     (case map_of kvs (js ''delta'') of
        None \<Rightarrow> True | Some Undefined \<Rightarrow> True | Some JNull \<Rightarrow> True | Some d \<Rightarrow> False)"
| "no_delta v = True"

fun lacks_readable_delta :: "jsval \<Rightarrow> bool" where
  "lacks_readable_delta (JObj kvs) =
     (case map_of kvs (js ''choices'') of
        Some (JArr (choice # others)) \<Rightarrow> no_delta choice
      | Some (JObj ckvs) \<Rightarrow>
          (case map_of ckvs (js ''0'') of None \<Rightarrow> True | Some choice \<Rightarrow> no_delta choice)
      | other \<Rightarrow> True)"
| "lacks_readable_delta v = True"

section \<open>Example inputs\<close>

definition example_turn :: "jsstring Content" where
  "example_turn = \<lparr>role = Some (js ''user''), parts = Some [TextPart (js ''hi'')]\<rparr>"

definition example_client :: OpenAIContentGenerator where
  "example_client = \<lparr>apiKey = js ''sk-test'', baseUrl = js ''https://api.openai.com/v1''\<rparr>"

text \<open>A backend that refuses every request with status 401.\<close>

definition unauthorized_platform :: platform where
  "unauthorized_platform =
     \<lparr>process_env = (\<lambda>name. None),
      fetch = (\<lambda>request. Inr \<lparr>ok = False, status = 401, statusText = js ''Unauthorized'',
                                body_text = js ''invalid key'', body = Some []\<rparr>),
      JSON_parse = (\<lambda>s. Inl (SyntaxError s))\<rparr>"

text \<open>A backend that answers every request with the content of the first message it was
  sent: the body is that text, and parsing the body gives a completion whose message has
  this content.\<close>

definition echo_platform :: platform where
  "echo_platform =
     \<lparr>process_env = (\<lambda>name. None),
      fetch = (\<lambda>request. Inr \<lparr>ok = True, status = 200, statusText = js ''OK'',
                                body_text = msg_content (hd (messages (request_body request))),
                                body = None\<rparr>),
      JSON_parse = (\<lambda>s. Inr (JObj [(js ''choices'',
                      JArr [JObj [(js ''index'', JNum 0),
                                  (js ''message'', JObj [(js ''role'', JStr (js ''assistant'')),
                                                         (js ''content'', JStr s)]),
                                  (js ''finish_reason'', JStr (js ''stop''))]])]))\<rparr>"

text \<open>Payloads of streamed lines: two deltas, a truncated one that is not JSON, one that
  is JSON with an empty \<^verbatim>\<open>choices\<close> array, and a delta whose content is the letter e with
  an acute accent (U+00E9, two bytes in UTF-8); a streamed payload of the wire format; and
  what \<^verbatim>\<open>JSON.parse\<close> gives on the example payloads.\<close>

definition hel_payload :: jsstring where
  \<open>hel_payload = js ''{"choices":[{"index":0,"delta":{"content":"Hel"},"finish_reason":null}]}''\<close>

definition lo_payload :: jsstring where
  \<open>lo_payload = js ''{"choices":[{"index":0,"delta":{"content":"lo"},"finish_reason":"stop"}]}''\<close>

definition truncated_payload :: jsstring where
  \<open>truncated_payload = js ''{"choices":[{"index":0,"delta":{"cont''\<close>

definition empty_choices_payload :: jsstring where
  \<open>empty_choices_payload = js ''{"id":"chatcmpl-1","choices":[]}''\<close>

definition accent_payload :: jsstring where
  \<open>accent_payload =
     js ''{"choices":[{"index":0,"delta":{"content":"'' @ [0xE9]
       @ js ''"},"finish_reason":null}]}''\<close>

definition delta_chunk :: "rat \<Rightarrow> jsstring \<Rightarrow> jsval \<Rightarrow> jsval" where
  "delta_chunk i s f =
     JObj [(js ''choices'',
            JArr [JObj [(js ''index'', JNum i),
                        (js ''delta'', JObj [(js ''content'', JStr s)]),
                        (js ''finish_reason'', f)]])]"

definition example_parse :: "jsstring \<Rightarrow> js_error + jsval" where
  "example_parse s =
     (if s = hel_payload then Inr (delta_chunk 0 (js ''Hel'') JNull)
      else if s = lo_payload then Inr (delta_chunk 0 (js ''lo'') (JStr (js ''stop'')))
      else if s = empty_choices_payload
        then Inr (JObj [(js ''id'', JStr (js ''chatcmpl-1'')), (js ''choices'', JArr [])])
      else if s = accent_payload then Inr (delta_chunk 0 [0xE9] JNull)
      else Inl (SyntaxError s))"

definition hel_response :: GenerateContentResponse where
  "hel_response = response_literal (JNum 0) (JStr (js ''Hel'')) JNull"

definition lo_response :: GenerateContentResponse where
  "lo_response = response_literal (JNum 0) (JStr (js ''lo'')) (JStr (js ''stop''))"

text \<open>Streamed bodies as the transport may deliver them, cut into chunks in the middle of
  lines.\<close>

definition hello_body :: "char list list" where
  \<open>hello_body =
     [''data: {"choices":[{"index":0,"delta":{"content":"Hel"},"finish_reason":null}]}\<newline>data: {"cho'',
      ''ices":[{"index":0,"delta":{"content":"lo"},"finish_reason":"stop"}]}\<newline>data: [DONE]\<newline>'']\<close>

definition after_done_body :: "char list list" where
  \<open>after_done_body =
     [''data: {"choices":[{"index":0,"delta":{"content":"Hel"},"finish_reason":null}]}\<newline>data: [DONE]\<newline>data: {"choices":[{"index":0,"delta":{"content":"lo"},"finish_reason":"stop"}]}\<newline>'']\<close>

definition glitch_body :: "char list list" where
  \<open>glitch_body =
     [''data: {"choices":[{"index":0,"delta":{"content":"Hel"},"finish_reason":null}]}\<newline>data: {"choices":[{"index":0,"delta":{"cont\<newline>da'',
      ''ta: {"choices":[{"index":0,"delta":{"content":"lo"},"finish_reason":"stop"}]}\<newline>data: [DONE]\<newline>'']\<close>

definition unterminated_body :: "char list list" where
  \<open>unterminated_body =
     [''data: {"choices":[{"index":0,"delta":{"content":"Hel"},"finish_reason":null}]}\<newline>'',
      ''data: {"choices":[{"index":0,"delta":{"content":"lo"},"finish_reason":"stop"}]}'']\<close>

definition unstructured_body :: "char list list" where
  \<open>unstructured_body =
     [''data: {"choices":[{"index":0,"delta":{"content":"Hel"},"finish_reason":null}]}\<newline>data: {"id":"chatcmpl-1","choices":[]}\<newline>data: {"choices":[{"index":0,"delta":{"content":"lo"},"finish_reason":"stop"}]}\<newline>'']\<close>

text \<open>A payload whose first choice has a string where the delta object is expected, what
  \<^verbatim>\<open>JSON.parse\<close> gives on it, and a body with this one line.\<close>

definition string_delta_payload :: jsstring where
  \<open>string_delta_payload = js ''{"choices":[{"index":0,"delta":"abc","finish_reason":null}]}''\<close>

definition string_delta_parse :: "jsstring \<Rightarrow> js_error + jsval" where
  "string_delta_parse s =
     (if s = string_delta_payload
      then Inr (JObj [(js ''choices'',
                  JArr [JObj [(js ''index'', JNum 0),
                              (js ''delta'', JStr (js ''abc'')),
                              (js ''finish_reason'', JNull)]])])
      else Inl (SyntaxError s))"

definition string_delta_body :: "char list list" where
  \<open>string_delta_body =
     [''data: {"choices":[{"index":0,"delta":"abc","finish_reason":null}]}\<newline>'']\<close>

text \<open>A body cut between the two bytes of a character.\<close>

definition accent_body :: "char list list" where
  \<open>accent_body =
     [''data: {"choices":[{"index":0,"delta":{"content":"'' @ [CHR 0xC3],
      [CHR 0xA9] @ ''"},"finish_reason":null}]}\<newline>'']\<close>

text \<open>A backend that answers every request with a given streamed body.\<close>

definition stream_platform :: "char list list \<Rightarrow> platform" where
  "stream_platform chunks =
     \<lparr>process_env = (\<lambda>name. None),
      fetch = (\<lambda>request. Inr \<lparr>ok = True, status = 200, statusText = js ''OK'',
                                body_text = [], body = Some (map Chunk chunks)\<rparr>),
      JSON_parse = example_parse\<rparr>"

section \<open>Lemmas about decoding, splitting and the loop over lines\<close>

lemma decode_append:
  "decode d (a @ b) =
     (case decode d a of (o1, d1) \<Rightarrow> (case decode d1 b of (o2, d2) \<Rightarrow> (o1 @ o2, d2)))"
  by (induction a arbitrary: d) (auto split: prod.splits)

lemma split_newline_not_Nil: "split_newline t \<noteq> []"
  by (induction t) (auto split: list.splits)

lemma split_newline_append:
  "split_newline (x @ y) = butlast (split_newline x) @ split_newline (last (split_newline x) @ y)"
proof (induction x)
  case Nil
  show ?case by simp
next
  case (Cons c x)
  show ?case
  proof (cases "c = 10")
    case True
    with Cons show ?thesis by (simp add: split_newline_not_Nil)
  next
    case False
    obtain l ls where s: "split_newline x = l # ls"
      using split_newline_not_Nil [of x] by (cases "split_newline x") auto
    show ?thesis
    proof (cases ls)
      case Nil
      with False s Cons show ?thesis by (simp split: list.splits)
    next
      case (Cons l' ls')
      with False s Cons.IH show ?thesis by (simp split: list.splits)
    qed
  qed
qed

lemma process_lines_append:
  "process_lines parse (a @ b) =
     (case process_lines parse a of
        (es, fin) \<Rightarrow>
          if fin then (es, True)
          else (case process_lines parse b of (es', fin') \<Rightarrow> (es @ es', fin')))"
  by (induction a) (auto simp: Let_def split: prod.splits sum.splits)

lemma split_newline_pieces: "l \<in> set (split_newline t) \<Longrightarrow> 10 \<notin> set l"
  by (induction t arbitrary: l) (auto split: if_splits list.splits)

lemma last_split_newline: "10 \<notin> set (last (split_newline t))"
  using split_newline_pieces [OF last_in_set [OF split_newline_not_Nil]] .

lemma split_newline_no_newline: "10 \<notin> set l \<Longrightarrow> split_newline l = [l]"
  by (induction l) auto

lemma generator_chunks:
  "10 \<notin> set buffer \<Longrightarrow>
   generator parse d buffer (map Chunk cs @ reads) =
     (case decode d (concat cs) of
        (decoded, d') \<Rightarrow>
          (case process_lines parse (butlast (split_newline (buffer @ decoded))) of
             (es, fin) \<Rightarrow>
               if fin then (es, Completed)
               else (case generator parse d' (last (split_newline (buffer @ decoded))) reads of
                       (es', out) \<Rightarrow> (es @ es', out))))"
proof (induction cs arbitrary: d buffer)
  case Nil
  then show ?case by (simp add: split_newline_no_newline split: prod.splits)
next
  case (Cons c cs)
  note IH = Cons.IH [OF last_split_newline]
  obtain o1 d1 where c: "decode d c = (o1, d1)" by (cases "decode d c")
  obtain o2 d2 where cs: "decode d1 (concat cs) = (o2, d2)" by (cases "decode d1 (concat cs)")
  have all: "decode d (c @ concat cs) = (o1 @ o2, d2)"
    by (simp add: decode_append c cs)
  have sp: "split_newline (buffer @ o1 @ o2) =
      butlast (split_newline (buffer @ o1)) @ split_newline (last (split_newline (buffer @ o1)) @ o2)"
    using split_newline_append [of "buffer @ o1" o2] by simp
  have bl: "butlast (split_newline (buffer @ o1 @ o2)) =
      butlast (split_newline (buffer @ o1)) @ butlast (split_newline (last (split_newline (buffer @ o1)) @ o2))"
    by (simp add: sp butlast_append split_newline_not_Nil)
  have la: "last (split_newline (buffer @ o1 @ o2)) =
      last (split_newline (last (split_newline (buffer @ o1)) @ o2))"
    by (simp add: sp split_newline_not_Nil)
  obtain es1 fin1 where p1: "process_lines parse (butlast (split_newline (buffer @ o1))) = (es1, fin1)"
    by (cases "process_lines parse (butlast (split_newline (buffer @ o1)))")
  have step: "on_chunk parse d buffer c = (es1, fin1, d1, last (split_newline (buffer @ o1)))"
    by (simp add: on_chunk_def c array_pop_def split_newline_not_Nil p1)
  show ?case
  proof (cases fin1)
    case True
    then show ?thesis
      by (simp add: step all bl process_lines_append p1 split: prod.splits)
  next
    case False
    then show ?thesis
      by (simp add: step all bl la process_lines_append p1 IH cs split: prod.splits)
  qed
qed

lemma utf8_lead_ascii: "b < 128 \<Longrightarrow> utf8_lead s b = (s, [b])"
  by (simp add: utf8_lead_def)

lemma decode_byte_ascii:
  "bytes_needed (decoder_state d) = 0 \<Longrightarrow> (of_char b :: nat) < 128 \<Longrightarrow>
   decode_byte d b = ([of_char b], d\<lparr>BOM_seen := True\<rparr>)"
  by (simp add: decode_byte_def utf8_handler_def utf8_lead_ascii utf16_units_def)

lemma decode_ascii:
  "bytes_needed (decoder_state d) = 0 \<Longrightarrow> \<forall>b \<in> set bs. (of_char b :: nat) < 128 \<Longrightarrow>
   fst (decode d bs) = js bs"
proof (induction bs arbitrary: d)
  case Nil
  show ?case by (simp add: js_def)
next
  case (Cons b bs)
  have "fst (decode (d\<lparr>BOM_seen := True\<rparr>) bs) = js bs"
    using Cons.prems by (intro Cons.IH) auto
  with Cons.prems show ?case
    by (cases "decode (d\<lparr>BOM_seen := True\<rparr>) bs") (simp add: decode_byte_ascii js_def)
qed

lemma decode_ascii_state:
  "bytes_needed (decoder_state d) = 0 \<Longrightarrow> \<forall>b \<in> set bs. (of_char b :: nat) < 128 \<Longrightarrow>
   decode d bs = (js bs, if bs = [] then d else d\<lparr>BOM_seen := True\<rparr>)"
proof (induction bs arbitrary: d)
  case Nil
  show ?case by (simp add: js_def)
next
  case (Cons b bs)
  have "decode (d\<lparr>BOM_seen := True\<rparr>) bs =
      (js bs, if bs = [] then d\<lparr>BOM_seen := True\<rparr> else d\<lparr>BOM_seen := True\<rparr>\<lparr>BOM_seen := True\<rparr>)"
    using Cons.prems by (intro Cons.IH) auto
  with Cons.prems show ?case
    by (simp add: decode_byte_ascii js_def)
qed

lemma new_TextDecoder_idle: "bytes_needed (decoder_state new_TextDecoder) = 0"
  by (simp add: new_TextDecoder_def utf8_initial_def)

lemma multibyte_example:
  "fst (decode new_TextDecoder [CHR 0xC3]) = [] \<and>
   fst (decode (snd (decode new_TextDecoder [CHR 0xC3])) [CHR 0xA9]) = [0xE9] \<and>
   fst (decode new_TextDecoder [CHR 0xC3, CHR 0xA9]) = [0xE9]"
  by (simp add: decode_byte_def utf8_handler_def utf8_lead_def utf8_initial_def
      new_TextDecoder_def utf16_units_def)

lemma split_newline_line: "10 \<notin> set l \<Longrightarrow> split_newline (l @ 10 # t) = l # split_newline t"
  by (induction l) (auto simp: split_newline_not_Nil split: list.splits)

lemma split_newline_unlines:
  "\<forall>l \<in> set ls. 10 \<notin> set l \<Longrightarrow>
   split_newline (concat (map (\<lambda>l. l @ [10]) ls) @ t) = ls @ split_newline t"
  by (induction ls) (auto simp: split_newline_line)

lemma split_lines_text:
  assumes "\<forall>l \<in> set ls. 10 \<notin> set l"
  shows "butlast (split_newline (lines_text ls @ t)) = ls @ butlast (split_newline t)"
    and "last (split_newline (lines_text ls @ t)) = last (split_newline t)"
  using assms
  by (simp_all add: lines_text_def split_newline_unlines butlast_append split_newline_not_Nil)

lemma length_data_prefix [simp]: "length (js ''data: '') = 6"
  by (simp add: js_def)

lemma data_line [simp]: "startsWith (js ''data: '' @ d) (js ''data: '')"
  by (simp add: startsWith_def)

lemma newline_not_in_prefix: "10 \<notin> set (js ''data: '')"
  by (simp add: js_def)

lemma done_facts: "10 \<notin> set (js ''[DONE]'')" "trim (js ''[DONE]'') = js ''[DONE]''"
  by (simp_all add: js_def trim_def is_js_whitespace_def)

lemma process_lines_done:
  "trim d = js ''[DONE]'' \<Longrightarrow>
   process_lines parse (ls @ (js ''data: '' @ d) # others) = (fst (process_lines parse ls), True)"
  by (simp add: process_lines_append split: prod.splits)

lemma process_lines_yield:
  "trim d \<noteq> js ''[DONE]'' \<Longrightarrow> and_then (parse d) delta_response = Inr g \<Longrightarrow>
   process_lines parse ((js ''data: '' @ d) # rest) =
     (Yield g # fst (process_lines parse rest), snd (process_lines parse rest))"
  by (simp split: prod.splits)

lemma process_lines_caught:
  "trim d \<noteq> js ''[DONE]'' \<Longrightarrow> and_then (parse d) delta_response = Inl e \<Longrightarrow>
   process_lines parse ((js ''data: '' @ d) # rest) =
     (ConsoleError e # fst (process_lines parse rest), snd (process_lines parse rest))"
  by (simp split: prod.splits)

lemma generator_complete_lines:
  assumes "\<forall>l \<in> set ls. 10 \<notin> set l"
    and "fst (decode new_TextDecoder (concat cs)) = lines_text ls @ t"
  shows "generator parse new_TextDecoder [] (map Chunk cs @ reads) =
     (case process_lines parse (ls @ butlast (split_newline t)) of
        (es, fin) \<Rightarrow>
          if fin then (es, Completed)
          else (case generator parse (snd (decode new_TextDecoder (concat cs)))
                       (last (split_newline t)) reads of
                  (es', out) \<Rightarrow> (es @ es', out)))"
proof -
  obtain decoded d' where d: "decode new_TextDecoder (concat cs) = (decoded, d')"
    by (cases "decode new_TextDecoder (concat cs)")
  with assms(2) have t: "decoded = lines_text ls @ t" by simp
  have "generator parse new_TextDecoder [] (map Chunk cs @ reads) =
     (case process_lines parse (butlast (split_newline ([] @ decoded))) of
        (es, fin) \<Rightarrow>
          if fin then (es, Completed)
          else (case generator parse d' (last (split_newline ([] @ decoded))) reads of
                  (es', out) \<Rightarrow> (es @ es', out)))"
    using generator_chunks [of "[]" parse new_TextDecoder cs reads] by (simp add: d)
  then show ?thesis
    by (simp add: d t split_lines_text [OF assms(1)] cong: if_cong)
qed

lemma generateContentStream_ok:
  assumes "array_map toOpenAIChatCompletionMessage (contents request) = Inr ms"
    and "fetchAPI p this (chat_body p ms True) = Inr response"
    and "ok response"
    and "body response = Some reads"
  shows "generateContentStream p this request =
     Inr (generator (JSON_parse p) new_TextDecoder [] reads)"
  using assms by (simp add: generateContentStream_def and_then_def)

section \<open>Lemmas about reading parsed payloads\<close>

lemma or_empty_JStr: "or_empty (JStr t) = JStr t"
  by (simp add: or_empty_def)

lemma get_prop_defined: "get_prop v k = Inr x \<Longrightarrow> \<exists>y. get_prop v k' = Inr y"
  by (cases v) auto

lemma delta_response_content:
  "delta_content v = Inr x \<Longrightarrow> \<exists>i f. delta_response v = Inr (response_literal i (or_empty x) f)"
proof -
  assume a: "delta_content v = Inr x"
  then obtain choices where 1: "get_prop v (js ''choices'') = Inr choices"
    by (auto simp: delta_content_def and_then_def split: sum.splits)
  with a obtain choice where 2: "get_index0 choices = Inr choice"
    by (auto simp: delta_content_def and_then_def split: sum.splits)
  with a 1 obtain delta where 3: "get_prop choice (js ''delta'') = Inr delta"
    by (auto simp: delta_content_def and_then_def split: sum.splits)
  with a 1 2 have 4: "get_prop delta (js ''content'') = Inr x"
    by (auto simp: delta_content_def and_then_def split: sum.splits)
  obtain i where i: "get_prop choice (js ''index'') = Inr i"
    using get_prop_defined [OF 3] by blast
  obtain f where f: "get_prop choice (js ''finish_reason'') = Inr f"
    using get_prop_defined [OF 3] by blast
  have "delta_response v = Inr (response_literal i (or_empty x) f)"
    using 1 2 3 4 i f by (simp add: delta_response_def and_then_def)
  then show ?thesis by blast
qed

lemma no_delta_TypeError:
  assumes "no_delta choice"
  shows "\<exists>k. and_then (get_prop choice (js ''delta'')) (\<lambda>delta.
     and_then (get_prop choice (js ''index'')) (\<lambda>i.
     and_then (get_prop delta (js ''content'')) (f delta i))) = Inl (TypeError k)"
proof (cases choice)
  case (JObj kvs)
  with assms show ?thesis
    by (auto simp: and_then_def split: option.splits jsval.splits)
qed (simp_all add: and_then_def)

lemma lacks_readable_delta_TypeError:
  assumes "lacks_readable_delta v"
  shows "\<exists>k. delta_response v = Inl (TypeError k)"
proof (cases v)
  case (JObj kvs)
  show ?thesis
  proof (cases "map_of kvs (js ''choices'')")
    case None
    with JObj show ?thesis by (simp add: delta_response_def and_then_def)
  next
    case (Some choices)
    show ?thesis
    proof (cases choices)
      case (JArr cs)
      show ?thesis
      proof (cases cs)
        case Nil
        with JObj Some JArr show ?thesis by (simp add: delta_response_def and_then_def)
      next
        case (Cons choice others)
        with assms JObj Some JArr have "no_delta choice" by simp
        from no_delta_TypeError [OF this] Cons JObj Some JArr show ?thesis
          by (simp add: delta_response_def and_then_def)
      qed
    next
      case (JStr s)
      with JObj Some show ?thesis
        by (cases s) (simp_all add: delta_response_def and_then_def)
    next
      case inner: (JObj ckvs)
      show ?thesis
      proof (cases "map_of ckvs (js ''0'')")
        case None
        with JObj Some inner show ?thesis by (simp add: delta_response_def and_then_def)
      next
        case first: (Some choice)
        with assms JObj Some inner have "no_delta choice" by simp
        from no_delta_TypeError [OF this] first JObj Some inner show ?thesis
          by (simp add: delta_response_def and_then_def)
      qed
    qed (use JObj Some in \<open>simp_all add: delta_response_def and_then_def\<close>)
  qed
qed (simp_all add: delta_response_def and_then_def)

lemma has_delta_content:
  assumes "\<not> no_delta choice"
  shows "\<exists>delta c. get_prop choice (js ''delta'') = Inr delta \<and>
           get_prop delta (js ''content'') = Inr c"
proof -
  from assms obtain kvs where choice: "choice = JObj kvs"
    by (cases choice) auto
  with assms obtain delta where delta: "map_of kvs (js ''delta'') = Some delta"
      "delta \<noteq> Undefined" "delta \<noteq> JNull"
    by (auto split: option.splits jsval.splits)
  then obtain c where "get_prop delta (js ''content'') = Inr c"
    by (cases delta) auto
  with choice delta show ?thesis by simp
qed

lemma readable_delta_content:
  assumes "\<not> lacks_readable_delta v"
  shows "\<exists>c. delta_content v = Inr c"
proof -
  from assms obtain kvs where v: "v = JObj kvs"
    by (cases v) auto
  with assms obtain choices where choices: "map_of kvs (js ''choices'') = Some choices"
    by (auto split: option.splits)
  have "\<exists>choice. get_index0 choices = Inr choice \<and> \<not> no_delta choice"
  proof (cases choices)
    case (JArr cs)
    with assms v choices show ?thesis by (cases cs) auto
  next
    case (JObj ckvs)
    with assms v choices show ?thesis by (auto split: option.splits)
  qed (use assms v choices in auto)
  then obtain choice where choice: "get_index0 choices = Inr choice" "\<not> no_delta choice"
    by blast
  from has_delta_content [OF choice(2)] obtain delta c where
    "get_prop choice (js ''delta'') = Inr delta" "get_prop delta (js ''content'') = Inr c"
    by blast
  with v choices choice(1) have "delta_content v = Inr c"
    by (simp add: delta_content_def and_then_def)
  then show ?thesis by blast
qed

section \<open>Facts about the example inputs\<close>

lemma show_nat_401: "show_nat 401 = js ''401''"
  by (simp add: show_nat.simps [of 401] show_nat.simps [of 40] show_nat.simps [of 4] js_def)

lemma payload_facts:
  "10 \<notin> set hel_payload" "trim hel_payload \<noteq> js ''[DONE]''"
  "10 \<notin> set lo_payload" "trim lo_payload \<noteq> js ''[DONE]''"
  "10 \<notin> set truncated_payload" "trim truncated_payload \<noteq> js ''[DONE]''"
  "10 \<notin> set empty_choices_payload" "trim empty_choices_payload \<noteq> js ''[DONE]''"
  "10 \<notin> set accent_payload" "trim accent_payload \<noteq> js ''[DONE]''"
  by (simp_all add: hel_payload_def lo_payload_def truncated_payload_def empty_choices_payload_def
      accent_payload_def js_def trim_def is_js_whitespace_def)

lemma payload_distinct:
  "lo_payload \<noteq> hel_payload" "truncated_payload \<noteq> hel_payload" "truncated_payload \<noteq> lo_payload"
  "empty_choices_payload \<noteq> hel_payload" "empty_choices_payload \<noteq> lo_payload"
  "truncated_payload \<noteq> empty_choices_payload" "truncated_payload \<noteq> accent_payload"
  "accent_payload \<noteq> hel_payload" "accent_payload \<noteq> lo_payload"
  "accent_payload \<noteq> empty_choices_payload"
  by (simp_all add: hel_payload_def lo_payload_def truncated_payload_def empty_choices_payload_def
      accent_payload_def js_def)

lemma delta_chunk_response:
  "delta_response (delta_chunk i s f) = Inr (response_literal (JNum i) (JStr s) f)"
  by (simp add: delta_chunk_def delta_response_def and_then_def or_empty_def js_def)

lemma delta_chunk_content: "delta_content (delta_chunk i s f) = Inr (JStr s)"
  by (simp add: delta_chunk_def delta_content_def and_then_def js_def)

lemma example_parse_facts:
  "example_parse hel_payload = Inr (delta_chunk 0 (js ''Hel'') JNull)"
  "example_parse lo_payload = Inr (delta_chunk 0 (js ''lo'') (JStr (js ''stop'')))"
  "example_parse truncated_payload = Inl (SyntaxError truncated_payload)"
  "example_parse empty_choices_payload =
     Inr (JObj [(js ''id'', JStr (js ''chatcmpl-1'')), (js ''choices'', JArr [])])"
  "example_parse accent_payload = Inr (delta_chunk 0 [0xE9] JNull)"
  by (simp_all add: example_parse_def payload_distinct)

lemma example_line_facts:
  "and_then (example_parse hel_payload) delta_response = Inr hel_response"
  "and_then (example_parse lo_payload) delta_response = Inr lo_response"
  "and_then (example_parse truncated_payload) delta_response = Inl (SyntaxError truncated_payload)"
  by (simp_all add: example_parse_facts and_then_def delta_chunk_response hel_response_def
      lo_response_def)

lemma empty_choices_line:
  "and_then (example_parse empty_choices_payload) delta_response = Inl (TypeError (js ''delta''))"
  by (simp add: example_parse_facts and_then_def delta_response_def js_def)

lemma example_bodies_decoded:
  "fst (decode new_TextDecoder (concat hello_body)) =
     lines_text [js ''data: '' @ hel_payload, js ''data: '' @ lo_payload, js ''data: '' @ js ''[DONE]'']"
  "fst (decode new_TextDecoder (concat after_done_body)) =
     lines_text ([js ''data: '' @ hel_payload] @ [js ''data: '' @ js ''[DONE]''])
       @ lines_text [js ''data: '' @ lo_payload]"
  "fst (decode new_TextDecoder (concat glitch_body)) =
     lines_text [js ''data: '' @ hel_payload, js ''data: '' @ truncated_payload,
                 js ''data: '' @ lo_payload, js ''data: '' @ js ''[DONE]'']"
  "fst (decode new_TextDecoder (concat unterminated_body)) =
     lines_text [js ''data: '' @ hel_payload] @ (js ''data: '' @ lo_payload)"
  "fst (decode new_TextDecoder (concat unstructured_body)) =
     lines_text ([js ''data: '' @ hel_payload] @ [js ''data: '' @ empty_choices_payload]
                 @ [js ''data: '' @ lo_payload]) @ []"
  by (subst decode_ascii [OF new_TextDecoder_idle];
      simp add: js_def lines_text_def hel_payload_def lo_payload_def truncated_payload_def
        empty_choices_payload_def hello_body_def after_done_body_def glitch_body_def
        unterminated_body_def unstructured_body_def)+

lemma accent_body_decoded:
  "fst (decode new_TextDecoder (concat accent_body)) = lines_text [js ''data: '' @ accent_payload]"
proof -
  let ?pre = \<open>''data: {"choices":[{"index":0,"delta":{"content":"''\<close>
  let ?post = \<open>''"},"finish_reason":null}]}\<newline>''\<close>
  let ?d = "new_TextDecoder\<lparr>BOM_seen := True\<rparr>"
  have 1: "decode new_TextDecoder ?pre = (js ?pre, ?d)"
    by (subst decode_ascii_state [OF new_TextDecoder_idle]) simp_all
  have 2: "decode ?d [CHR 0xC3, CHR 0xA9] = ([0xE9], ?d)"
    by (simp add: decode_byte_def utf8_handler_def utf8_lead_def utf8_initial_def
        new_TextDecoder_def utf16_units_def)
  have 3: "decode ?d ?post = (js ?post, ?d)"
    by (subst decode_ascii_state) (simp_all add: new_TextDecoder_def utf8_initial_def)
  have "concat accent_body = ?pre @ [CHR 0xC3, CHR 0xA9] @ ?post"
    by (simp add: accent_body_def)
  then have "decode new_TextDecoder (concat accent_body) = (js ?pre @ [0xE9] @ js ?post, ?d)"
    by (simp only: decode_append 1 2 3 prod.case)
  then show ?thesis
    by (simp add: lines_text_def accent_payload_def js_def)
qed

lemma string_delta_facts:
  "10 \<notin> set string_delta_payload" "trim string_delta_payload \<noteq> js ''[DONE]''"
  "fst (decode new_TextDecoder (concat string_delta_body)) =
     lines_text [js ''data: '' @ string_delta_payload] @ []"
  "and_then (string_delta_parse string_delta_payload) delta_response =
     Inr (response_literal (JNum 0) (JStr []) JNull)"
proof -
  show "10 \<notin> set string_delta_payload" "trim string_delta_payload \<noteq> js ''[DONE]''"
    by (simp_all add: string_delta_payload_def js_def trim_def is_js_whitespace_def)
  show "fst (decode new_TextDecoder (concat string_delta_body)) =
     lines_text [js ''data: '' @ string_delta_payload] @ []"
    by (subst decode_ascii [OF new_TextDecoder_idle])
       (simp_all add: string_delta_body_def string_delta_payload_def lines_text_def js_def)
  show "and_then (string_delta_parse string_delta_payload) delta_response =
     Inr (response_literal (JNum 0) (JStr []) JNull)"
    by (simp add: string_delta_parse_def and_then_def delta_response_def or_empty_def js_def)
qed

lemma example_turn_translated:
  "array_map toOpenAIChatCompletionMessage (contents \<lparr>contents = [example_turn]\<rparr>) =
     Inr [\<lparr>msg_role = User, msg_content = js ''hi''\<rparr>]"
  by (simp add: example_turn_def toOpenAIChatCompletionMessage_def toOpenAIRole_def and_then_def)

lemma stream_platform_fetch:
  "fetchAPI (stream_platform chunks) this b =
     Inr \<lparr>ok = True, status = 200, statusText = js ''OK'', body_text = [],
          body = Some (map Chunk chunks)\<rparr>"
  by (simp add: fetchAPI_def stream_platform_def)

lemma stream_platform_parse: "JSON_parse (stream_platform chunks) = example_parse"
  by (simp add: stream_platform_def)

section \<open>Properties of the translation of turns\<close>

lemma js_user_neq_model: "js ''user'' \<noteq> js ''model''"
  by (simp add: js_def)

lemma array_map_text_parts:
  "list_all has_text ps \<Longrightarrow>
   \<exists>qs. array_map toOpenAIPart ps = Inr qs \<and> length qs = length ps \<and>
        (\<forall>q \<in> set qs. part_type q = js ''text'')"
proof (induction ps)
  case Nil
  show ?case by simp
next
  case (Cons p ps)
  then obtain qs where qs: "array_map toOpenAIPart ps = Inr qs" "length qs = length ps"
      "\<forall>q \<in> set qs. part_type q = js ''text''"
    by auto
  from Cons.prems obtain t where "p = TextPart t" by (cases p) auto
  with qs show ?case by simp
qed

lemma array_map_other_part:
  "\<not> list_all has_text ps \<Longrightarrow>
   array_map toOpenAIPart ps = Inl (Error (js ''Unsupported part type''))"
proof (induction ps)
  case Nil
  then show ?case by simp
next
  case (Cons p ps)
  show ?case
  proof (cases p)
    case (TextPart t)
    with Cons show ?thesis by simp
  next
    case (OtherPart k)
    then show ?thesis by simp
  qed
qed

text \<open>
  C3.  A turn whose parts list is empty or absent is to fail with an empty-turn error of
  its own.  The code does not do so: it has no guard before \<^verbatim>\<open>parts[0].type\<close>: for the turn with role
  \<^verbatim>\<open>user\<close> and no parts (an empty list, or none at all) the call ends in the engine's
  \<^verbatim>\<open>TypeError\<close> for reading \<^verbatim>\<open>type\<close> of \<^verbatim>\<open>undefined\<close>, where the neighbouring checks of the
  role and of the kind of a part throw an \<^verbatim>\<open>Error\<close> of their own.
\<close>

theorem empty_turn_TypeError:
  "toOpenAIChatCompletionMessage \<lparr>role = Some (js ''user''), parts = Some []\<rparr> =
     Inl (TypeError (js ''type'')) \<and>
   toOpenAIChatCompletionMessage \<lparr>role = Some (js ''user''), parts = None\<rparr> =
     Inl (TypeError (js ''type''))"
  by (simp add: toOpenAIChatCompletionMessage_def and_then_def toOpenAIRole_def)

text \<open>
  C4 (as amended).  For a turn with role \<^verbatim>\<open>user\<close> or \<^verbatim>\<open>model\<close> whose first part is a text
  part: when every further part is a text part too, the translation succeeds and the
  content of the message is the text of the first part (the further parts are dropped);
  when some further part is not a text part, the translation fails with
  \<^verbatim>\<open>Unsupported part type\<close>, since every part is mapped before the first is taken.
\<close>

theorem first_text_part_translated:
  assumes "role c = Some (js ''user'') \<or> role c = Some (js ''model'')"
    and "parts c = Some (TextPart t # others)"
  shows "toOpenAIChatCompletionMessage c =
     (if list_all has_text others
      then Inr \<lparr>msg_role = (if role c = Some (js ''user'') then User else Assistant),
                msg_content = t\<rparr>
      else Inl (Error (js ''Unsupported part type'')))"
proof (cases "list_all has_text others")
  case True
  then obtain qs where "array_map toOpenAIPart others = Inr qs"
    using array_map_text_parts by blast
  with assms True show ?thesis
    by (auto simp: toOpenAIChatCompletionMessage_def and_then_def toOpenAIRole_def js_user_neq_model)
next
  case False
  then have "array_map toOpenAIPart others = Inl (Error (js ''Unsupported part type''))"
    by (rule array_map_other_part)
  with assms False show ?thesis
    by (auto simp: toOpenAIChatCompletionMessage_def and_then_def toOpenAIRole_def)
qed

theorem first_text_part_translated_witness:
  "toOpenAIChatCompletionMessage
     \<lparr>role = Some (js ''model''), parts = Some [TextPart (js ''hi''), TextPart (js ''there'')]\<rparr>
   = Inr \<lparr>msg_role = Assistant, msg_content = js ''hi''\<rparr>"
  using first_text_part_translated
    [of "\<lparr>role = Some (js ''model''), parts = Some [TextPart (js ''hi''), TextPart (js ''there'')]\<rparr>"
        "js ''hi''" "[TextPart (js ''there'')]"]
  by (simp add: js_def)

text \<open>A text part followed by a function call: the turn is refused.\<close>

theorem later_part_fails_counterexample:
  "toOpenAIChatCompletionMessage
     \<lparr>role = Some (js ''user''),
      parts = Some [TextPart (js ''hi''), OtherPart (js ''functionCall'')]\<rparr>
   = Inl (Error (js ''Unsupported part type''))"
  by (simp add: toOpenAIChatCompletionMessage_def and_then_def toOpenAIRole_def)

text \<open>
  C5.  The role \<^verbatim>\<open>user\<close> becomes \<^verbatim>\<open>user\<close> and \<^verbatim>\<open>model\<close> becomes \<^verbatim>\<open>assistant\<close>; for every
  other role (an absent one too) \<^verbatim>\<open>toOpenAIRole\<close> and with it
  \<^verbatim>\<open>toOpenAIChatCompletionMessage\<close> fail with the unsupported-role error; and a message
  that is produced has the role \<^verbatim>\<open>user\<close> or \<^verbatim>\<open>assistant\<close>.
\<close>

theorem role_mapping:
  "toOpenAIRole (Some (js ''user'')) = Inr User \<and>
   toOpenAIRole (Some (js ''model'')) = Inr Assistant \<and>
   (r \<noteq> Some (js ''user'') \<and> r \<noteq> Some (js ''model'') \<longrightarrow>
      toOpenAIRole r = Inl (Error (js ''Unsupported role: '' @ show_role r)) \<and>
      (role c = r \<longrightarrow>
         toOpenAIChatCompletionMessage c = Inl (Error (js ''Unsupported role: '' @ show_role r)))) \<and>
   (toOpenAIChatCompletionMessage c' = Inr m \<longrightarrow> msg_role m = User \<or> msg_role m = Assistant)"
proof -
  have ok: "toOpenAIRole x = Inr y \<Longrightarrow> y = User \<or> y = Assistant" for x y
    by (auto simp: toOpenAIRole_def split: if_splits)
  have "msg_role m = User \<or> msg_role m = Assistant"
    if "toOpenAIChatCompletionMessage c' = Inr m"
    using that ok [of "role c'"]
    by (auto simp: toOpenAIChatCompletionMessage_def and_then_def
        split: sum.splits list.splits if_splits)
  moreover have "toOpenAIRole (Some (js ''model'')) = Inr Assistant"
    using js_user_neq_model by (auto simp: toOpenAIRole_def)
  moreover have "toOpenAIRole (Some (js ''user'')) = Inr User"
    by (simp add: toOpenAIRole_def)
  moreover have "toOpenAIRole r = Inl (Error (js ''Unsupported role: '' @ show_role r))"
    if "r \<noteq> Some (js ''user'') \<and> r \<noteq> Some (js ''model'')"
    using that by (simp add: toOpenAIRole_def)
  ultimately show ?thesis
    by (simp add: toOpenAIChatCompletionMessage_def and_then_def)
qed

theorem role_mapping_witness:
  "toOpenAIRole (Some (js ''tool'')) = Inl (Error (js ''Unsupported role: tool'')) \<and>
   toOpenAIChatCompletionMessage \<lparr>role = Some (js ''tool''), parts = Some [TextPart (js ''hi'')]\<rparr> =
     Inl (Error (js ''Unsupported role: tool'')) \<and>
   toOpenAIChatCompletionMessage \<lparr>role = Some (js ''model''), parts = Some [TextPart (js ''hi'')]\<rparr> =
     Inr \<lparr>msg_role = Assistant, msg_content = js ''hi''\<rparr> \<and>
   msg_role \<lparr>msg_role = Assistant, msg_content = js ''hi''\<rparr> = Assistant"
  using role_mapping [of "Some (js ''tool'')"
      "\<lparr>role = Some (js ''tool''), parts = Some [TextPart (js ''hi'')]\<rparr>"
      "\<lparr>role = Some (js ''model''), parts = Some [TextPart (js ''hi'')]\<rparr>"
      "\<lparr>msg_role = Assistant, msg_content = js ''hi''\<rparr>"]
  by (simp add: js_def show_role_def toOpenAIChatCompletionMessage_def and_then_def toOpenAIRole_def)

section \<open>Properties of the two entry points\<close>

text \<open>
  C2.  Round trip of the text.  A turn with role \<^verbatim>\<open>user\<close> or \<^verbatim>\<open>model\<close> and a single text
  part is translated to a message \<open>m\<close> with that text as content; when the backend
  answers the request with an OK reply whose parsed body has \<^verbatim>\<open>choices[0].message.content\<close>
  equal to the content of \<open>m\<close>, \<^verbatim>\<open>generateContent\<close> returns a response with one
  candidate, whose content is one text part carrying the text of the turn.
\<close>

theorem text_round_trip:
  assumes "role c = Some (js ''user'') \<or> role c = Some (js ''model'')"
    and "parts c = Some [TextPart t]"
    and "m = \<lparr>msg_role = (if role c = Some (js ''user'') then User else Assistant),
               msg_content = t\<rparr>"
    and "fetchAPI p this (chat_body p [m] False) = Inr response"
    and "ok response"
    and "JSON_parse p (body_text response) = Inr v"
    and "get_prop v (js ''choices'') = Inr choices"
    and "get_index0 choices = Inr choice"
    and "get_prop choice (js ''message'') = Inr message"
    and "get_prop message (js ''content'') = Inr (JStr (msg_content m))"
  shows "toOpenAIChatCompletionMessage c = Inr m \<and>
     (\<exists>g cand. generateContent p this \<lparr>contents = [c]\<rparr> = Inr g \<and> candidates g = [cand] \<and>
        content cand = \<lparr>role = Some (js ''model''), parts = Some [TextPart (JStr t)]\<rparr>)"
proof -
  have js_neq: "js ''model'' \<noteq> js ''user''"
    by (simp add: js_def)
  have m: "toOpenAIChatCompletionMessage c = Inr m"
    using assms(1-3) js_neq
    by (auto simp: toOpenAIChatCompletionMessage_def and_then_def toOpenAIRole_def)
  obtain i where i: "get_prop choice (js ''index'') = Inr i"
    using get_prop_defined [OF assms(9)] by blast
  obtain f where f: "get_prop choice (js ''finish_reason'') = Inr f"
    using get_prop_defined [OF assms(9)] by blast
  have "message_response v = Inr (response_literal i (JStr t) f)"
    using assms(3,7-10) i f by (simp add: message_response_def and_then_def or_empty_JStr)
  then have "generateContent p this \<lparr>contents = [c]\<rparr> = Inr (response_literal i (JStr t) f)"
    using m assms(4-6) by (simp add: generateContent_def and_then_def)
  then show ?thesis
    using m by (simp add: response_literal_def)
qed

theorem text_round_trip_witness:
  "toOpenAIChatCompletionMessage example_turn = Inr \<lparr>msg_role = User, msg_content = js ''hi''\<rparr> \<and>
   (\<exists>g cand. generateContent echo_platform example_client \<lparr>contents = [example_turn]\<rparr> = Inr g \<and>
      candidates g = [cand] \<and>
      content cand = \<lparr>role = Some (js ''model''), parts = Some [TextPart (JStr (js ''hi''))]\<rparr>)"
  using text_round_trip [of example_turn "js ''hi''" "\<lparr>msg_role = User, msg_content = js ''hi''\<rparr>"
      echo_platform example_client
      "\<lparr>ok = True, status = 200, statusText = js ''OK'', body_text = js ''hi'', body = None\<rparr>"
      "JObj [(js ''choices'',
              JArr [JObj [(js ''index'', JNum 0),
                          (js ''message'', JObj [(js ''role'', JStr (js ''assistant'')),
                                                 (js ''content'', JStr (js ''hi''))]),
                          (js ''finish_reason'', JStr (js ''stop''))]])]"
      "JArr [JObj [(js ''index'', JNum 0),
                   (js ''message'', JObj [(js ''role'', JStr (js ''assistant'')),
                                          (js ''content'', JStr (js ''hi''))]),
                   (js ''finish_reason'', JStr (js ''stop''))]]"
      "JObj [(js ''index'', JNum 0),
             (js ''message'', JObj [(js ''role'', JStr (js ''assistant'')),
                                    (js ''content'', JStr (js ''hi''))]),
             (js ''finish_reason'', JStr (js ''stop''))]"
      "JObj [(js ''role'', JStr (js ''assistant'')), (js ''content'', JStr (js ''hi''))]"]
  by (simp add: example_turn_def echo_platform_def fetchAPI_def chat_body_def js_def)

text \<open>
  C9.  When the turns of the request translate and the backend replies with a status that
  is not OK, \<^verbatim>\<open>generateContent\<close> and \<^verbatim>\<open>generateContentStream\<close> both fail, and the message
  of the error is \<^verbatim>\<open>OpenAI API error: \<close> followed by the decimal status code, a space,
  the status text, \<^verbatim>\<open> - \<close> and the text of the body, unchanged.  No response is produced.
\<close>

theorem non_ok_reply_fails:
  assumes "array_map toOpenAIChatCompletionMessage (contents request) = Inr ms"
  shows "(fetchAPI p this (chat_body p ms False) = Inr response \<and> \<not> ok response \<longrightarrow>
            generateContent p this request =
              Inl (Error (js ''OpenAI API error: '' @ show_nat (status response) @ js '' ''
                          @ statusText response @ js '' - '' @ body_text response))) \<and>
         (fetchAPI p this (chat_body p ms True) = Inr response' \<and> \<not> ok response' \<longrightarrow>
            generateContentStream p this request =
              Inl (Error (js ''OpenAI API error: '' @ show_nat (status response') @ js '' ''
                          @ statusText response' @ js '' - '' @ body_text response')))"
  using assms
  by (simp add: generateContent_def generateContentStream_def and_then_def api_error_message_def
      split: option.splits)

theorem non_ok_reply_fails_witness:
  "generateContent unauthorized_platform example_client \<lparr>contents = [example_turn]\<rparr> =
     Inl (Error (js ''OpenAI API error: 401 Unauthorized - invalid key'')) \<and>
   generateContentStream unauthorized_platform example_client \<lparr>contents = [example_turn]\<rparr> =
     Inl (Error (js ''OpenAI API error: 401 Unauthorized - invalid key''))"
  using non_ok_reply_fails [of "\<lparr>contents = [example_turn]\<rparr>"
      "[\<lparr>msg_role = User, msg_content = js ''hi''\<rparr>]" unauthorized_platform example_client
      "\<lparr>ok = False, status = 401, statusText = js ''Unauthorized'',
        body_text = js ''invalid key'', body = Some []\<rparr>"
      "\<lparr>ok = False, status = 401, statusText = js ''Unauthorized'',
        body_text = js ''invalid key'', body = Some []\<rparr>"]
  by (simp add: example_turn_def unauthorized_platform_def fetchAPI_def
      toOpenAIChatCompletionMessage_def toOpenAIRole_def and_then_def show_nat_401 js_def)

section \<open>Properties of the stream decoder\<close>

text \<open>
  C1.  Whatever the bytes are and however they are cut into chunks, the generator emits
  the same values, in the same order, and ends the same way as when all the bytes arrive
  in one chunk; so does \<^verbatim>\<open>generateContentStream\<close> for two replies that differ in the
  chunking of the body only.
\<close>

theorem chunking_irrelevant:
  "generator parse new_TextDecoder [] (map Chunk cs) =
     generator parse new_TextDecoder [] [Chunk (concat cs)] \<and>
   generateContentStream
     (p\<lparr>fetch := (\<lambda>q. Inr (response\<lparr>body := Some (map Chunk cs)\<rparr>))\<rparr>) this request =
   generateContentStream
     (p\<lparr>fetch := (\<lambda>q. Inr (response\<lparr>body := Some [Chunk (concat cs)]\<rparr>))\<rparr>) this request"
proof -
  have "generator parse new_TextDecoder [] (map Chunk cs @ []) =
      generator parse new_TextDecoder [] (map Chunk [concat cs] @ [])" for parse
    by (simp only: generator_chunks [of "[]", simplified]) simp
  then have g: "generator parse new_TextDecoder [] (map Chunk cs) =
      generator parse new_TextDecoder [] [Chunk (concat cs)]" for parse
    by simp
  show ?thesis
    by (simp add: g generateContentStream_def fetchAPI_def chat_body_def and_then_def
        api_error_message_def split: sum.splits)
qed

text \<open>The body is cut between the two bytes of a character: the first chunk ends with
  0xC3 and the second starts with 0xA9.  The line is yielded with its text, U+00E9.\<close>

theorem chunking_irrelevant_witness:
  "generator example_parse new_TextDecoder [] (map Chunk accent_body) =
     ([Yield (response_literal (JNum 0) (JStr [0xE9]) JNull)], Completed)"
proof -
  have nl: "\<forall>l \<in> set [js ''data: '' @ accent_payload]. 10 \<notin> set l"
    by (simp add: newline_not_in_prefix payload_facts)
  have dec: "fst (decode new_TextDecoder (concat [concat accent_body])) =
      lines_text [js ''data: '' @ accent_payload] @ []"
    by (simp add: accent_body_decoded)
  have line: "process_lines example_parse [js ''data: '' @ accent_payload] =
      ([Yield (response_literal (JNum 0) (JStr [0xE9]) JNull)], False)"
    by (simp add: payload_facts example_parse_facts and_then_def delta_chunk_response)
  have "generator example_parse new_TextDecoder [] [Chunk (concat accent_body)] =
      ([Yield (response_literal (JNum 0) (JStr [0xE9]) JNull)], Completed)"
    using generator_complete_lines [OF nl dec, of example_parse "[]"]
    by (simp add: line del: process_lines.simps)
  with chunking_irrelevant [of example_parse accent_body] show ?thesis by simp
qed

text \<open>
  C8.  When the text decoded from the chunks is a sequence of complete lines followed by
  a remainder \<open>r\<close> without a line feed, the generator emits exactly what the complete
  lines give and then ends normally: nothing is emitted for \<open>r\<close>.  If more reads follow,
  what was emitted up to there is followed by whatever the later reads give.  After every
  chunk, the lines processed are all pieces of the buffer but the last, and the last piece
  is the new buffer.
\<close>

theorem partial_line_held_back:
  assumes "\<forall>l \<in> set ls. 10 \<notin> set l"
    and "10 \<notin> set r"
    and "fst (decode new_TextDecoder (concat cs)) = lines_text ls @ r"
  shows "generator parse new_TextDecoder [] (map Chunk cs) =
           (fst (process_lines parse ls), Completed) \<and>
         (\<exists>es out. generator parse new_TextDecoder [] (map Chunk cs @ reads) =
                     (fst (process_lines parse ls) @ es, out)) \<and>
         on_chunk parse d buffer v =
           (fst (process_lines parse (butlast (split_newline (buffer @ fst (decode d v))))),
            snd (process_lines parse (butlast (split_newline (buffer @ fst (decode d v))))),
            snd (decode d v),
            last (split_newline (buffer @ fst (decode d v))))"
proof -
  have r: "butlast (split_newline r) = []" "last (split_newline r) = r"
    using assms(2) by (simp_all add: split_newline_no_newline)
  have g: "generator parse new_TextDecoder [] (map Chunk cs @ rs) =
     (case process_lines parse ls of
        (es, fin) \<Rightarrow>
          if fin then (es, Completed)
          else (case generator parse (snd (decode new_TextDecoder (concat cs))) r rs of
                  (es', out) \<Rightarrow> (es @ es', out)))" for rs
    using generator_complete_lines [OF assms(1,3), of parse rs] by (simp add: r cong: if_cong)
  have 1: "generator parse new_TextDecoder [] (map Chunk cs) =
           (fst (process_lines parse ls), Completed)"
    using g [of "[]"] by (simp split: prod.splits)
  have 2: "\<exists>es out. generator parse new_TextDecoder [] (map Chunk cs @ reads) =
                     (fst (process_lines parse ls) @ es, out)"
  proof (cases "snd (process_lines parse ls)")
    case True
    then have "generator parse new_TextDecoder [] (map Chunk cs @ reads) =
        (fst (process_lines parse ls) @ [], Completed)"
      using g [of reads] by (simp split: prod.splits)
    then show ?thesis by blast
  next
    case False
    then have "generator parse new_TextDecoder [] (map Chunk cs @ reads) =
        (fst (process_lines parse ls) @
           fst (generator parse (snd (decode new_TextDecoder (concat cs))) r reads),
         snd (generator parse (snd (decode new_TextDecoder (concat cs))) r reads))"
      using g [of reads] by (simp split: prod.splits)
    then show ?thesis by blast
  qed
  have 3: "on_chunk parse d buffer v =
           (fst (process_lines parse (butlast (split_newline (buffer @ fst (decode d v))))),
            snd (process_lines parse (butlast (split_newline (buffer @ fst (decode d v))))),
            snd (decode d v),
            last (split_newline (buffer @ fst (decode d v))))"
    by (simp add: on_chunk_def array_pop_def split_newline_not_Nil split: prod.splits)
  from 1 2 3 show ?thesis by blast
qed

theorem partial_line_held_back_witness:
  "generator example_parse new_TextDecoder [] (map Chunk unterminated_body) =
     ([Yield hel_response], Completed)"
proof -
  have line: "fst (process_lines example_parse [js ''data: '' @ hel_payload]) = [Yield hel_response]"
    by (simp add: payload_facts example_line_facts)
  have "\<forall>l \<in> set [js ''data: '' @ hel_payload]. 10 \<notin> set l"
    and "10 \<notin> set (js ''data: '' @ lo_payload)"
    by (simp_all add: payload_facts newline_not_in_prefix)
  from partial_line_held_back [OF this example_bodies_decoded(4), of example_parse] line
  show ?thesis by simp
qed

text \<open>
  C7.  When the body of an OK reply is two data lines whose payloads parse to deltas with
  the contents \<^verbatim>\<open>Hel\<close> and \<^verbatim>\<open>lo\<close>, followed by the line \<^verbatim>\<open>data: [DONE]\<close>,
  \<^verbatim>\<open>generateContentStream\<close> yields exactly two responses, with the texts \<^verbatim>\<open>Hel\<close> and
  \<^verbatim>\<open>lo\<close> in this order, and ends normally.  In general, once a complete data line whose
  payload trims to \<^verbatim>\<open>[DONE]\<close> has arrived, the generator has emitted what the lines before
  it give and ends normally: no later line is processed and no later read is made.
\<close>

theorem terminator_ends_stream:
  "(array_map toOpenAIChatCompletionMessage (contents request) = Inr ms \<and>
    fetchAPI p this (chat_body p ms True) = Inr response \<and>
    ok response \<and> body response = Some (map Chunk cs) \<and>
    JSON_parse p d1 = Inr v1 \<and> delta_content v1 = Inr (JStr (js ''Hel'')) \<and>
    JSON_parse p d2 = Inr v2 \<and> delta_content v2 = Inr (JStr (js ''lo'')) \<and>
    10 \<notin> set d1 \<and> 10 \<notin> set d2 \<and> trim d1 \<noteq> js ''[DONE]'' \<and> trim d2 \<noteq> js ''[DONE]'' \<and>
    fst (decode new_TextDecoder (concat cs)) =
      lines_text [js ''data: '' @ d1, js ''data: '' @ d2, js ''data: '' @ js ''[DONE]'']
    \<longrightarrow> (\<exists>g1 g2 c1 c2.
          generateContentStream p this request = Inr ([Yield g1, Yield g2], Completed) \<and>
          candidates g1 = [c1] \<and>
          content c1 = \<lparr>role = Some (js ''model''), parts = Some [TextPart (JStr (js ''Hel''))]\<rparr> \<and>
          candidates g2 = [c2] \<and>
          content c2 = \<lparr>role = Some (js ''model''), parts = Some [TextPart (JStr (js ''lo''))]\<rparr>)) \<and>
   ((\<forall>l \<in> set ls. 10 \<notin> set l) \<and> 10 \<notin> set d \<and> trim d = js ''[DONE]'' \<and>
    fst (decode new_TextDecoder (concat cs')) = lines_text (ls @ [js ''data: '' @ d]) @ t
    \<longrightarrow> generator parse new_TextDecoder [] (map Chunk cs' @ reads) =
          (fst (process_lines parse ls), Completed))"
proof -
  have general: "generator parse new_TextDecoder [] (map Chunk cs' @ reads) =
          (fst (process_lines parse ls), Completed)"
    if "\<forall>l \<in> set ls. 10 \<notin> set l" "10 \<notin> set d" "trim d = js ''[DONE]''"
      "fst (decode new_TextDecoder (concat cs')) = lines_text (ls @ [js ''data: '' @ d]) @ t"
    for parse cs' reads ls d t
  proof -
    have nl: "\<forall>l \<in> set (ls @ [js ''data: '' @ d]). 10 \<notin> set l"
      using that(1,2) by (simp add: newline_not_in_prefix)
    show ?thesis
      using generator_complete_lines [OF nl that(4), of parse reads]
      by (simp add: process_lines_done [OF that(3)])
  qed
  have hello: "\<exists>g1 g2 c1 c2.
          generateContentStream p this request = Inr ([Yield g1, Yield g2], Completed) \<and>
          candidates g1 = [c1] \<and>
          content c1 = \<lparr>role = Some (js ''model''), parts = Some [TextPart (JStr (js ''Hel''))]\<rparr> \<and>
          candidates g2 = [c2] \<and>
          content c2 = \<lparr>role = Some (js ''model''), parts = Some [TextPart (JStr (js ''lo''))]\<rparr>"
    if sent: "array_map toOpenAIChatCompletionMessage (contents request) = Inr ms"
        "fetchAPI p this (chat_body p ms True) = Inr response"
        "ok response" "body response = Some (map Chunk cs)"
      and p1: "JSON_parse p d1 = Inr v1" and c1: "delta_content v1 = Inr (JStr (js ''Hel''))"
      and p2: "JSON_parse p d2 = Inr v2" and c2: "delta_content v2 = Inr (JStr (js ''lo''))"
      and n: "10 \<notin> set d1" "10 \<notin> set d2"
      and t: "trim d1 \<noteq> js ''[DONE]''" "trim d2 \<noteq> js ''[DONE]''"
      and dec: "fst (decode new_TextDecoder (concat cs)) =
        lines_text [js ''data: '' @ d1, js ''data: '' @ d2, js ''data: '' @ js ''[DONE]'']"
  proof -
    obtain i1 f1 where r1: "delta_response v1 = Inr (response_literal i1 (JStr (js ''Hel'')) f1)"
      using delta_response_content [OF c1] by (auto simp: or_empty_JStr)
    obtain i2 f2 where r2: "delta_response v2 = Inr (response_literal i2 (JStr (js ''lo'')) f2)"
      using delta_response_content [OF c2] by (auto simp: or_empty_JStr)
    have nl: "\<forall>l \<in> set [js ''data: '' @ d1, js ''data: '' @ d2]. 10 \<notin> set l"
      using n by (simp add: newline_not_in_prefix)
    have dec': "fst (decode new_TextDecoder (concat cs)) =
        lines_text ([js ''data: '' @ d1, js ''data: '' @ d2] @ [js ''data: '' @ js ''[DONE]'']) @ []"
      using dec by simp
    note stop = done_facts
    have "generator (JSON_parse p) new_TextDecoder [] (map Chunk cs @ []) =
        (fst (process_lines (JSON_parse p) [js ''data: '' @ d1, js ''data: '' @ d2]), Completed)"
      by (rule general [OF nl stop dec'])
    moreover have "fst (process_lines (JSON_parse p) [js ''data: '' @ d1, js ''data: '' @ d2]) =
        [Yield (response_literal i1 (JStr (js ''Hel'')) f1),
         Yield (response_literal i2 (JStr (js ''lo'')) f2)]"
      using t by (simp add: p1 p2 r1 r2 and_then_def)
    ultimately have "generateContentStream p this request =
        Inr ([Yield (response_literal i1 (JStr (js ''Hel'')) f1),
              Yield (response_literal i2 (JStr (js ''lo'')) f2)], Completed)"
      using generateContentStream_ok [OF sent] by simp
    then show ?thesis by (simp add: response_literal_def)
  qed
  show ?thesis
  proof (intro conjI impI)
    assume "array_map toOpenAIChatCompletionMessage (contents request) = Inr ms \<and>
      fetchAPI p this (chat_body p ms True) = Inr response \<and>
      ok response \<and> body response = Some (map Chunk cs) \<and>
      JSON_parse p d1 = Inr v1 \<and> delta_content v1 = Inr (JStr (js ''Hel'')) \<and>
      JSON_parse p d2 = Inr v2 \<and> delta_content v2 = Inr (JStr (js ''lo'')) \<and>
      10 \<notin> set d1 \<and> 10 \<notin> set d2 \<and> trim d1 \<noteq> js ''[DONE]'' \<and> trim d2 \<noteq> js ''[DONE]'' \<and>
      fst (decode new_TextDecoder (concat cs)) =
        lines_text [js ''data: '' @ d1, js ''data: '' @ d2, js ''data: '' @ js ''[DONE]'']"
    then show "\<exists>g1 g2 c1 c2.
          generateContentStream p this request = Inr ([Yield g1, Yield g2], Completed) \<and>
          candidates g1 = [c1] \<and>
          content c1 = \<lparr>role = Some (js ''model''), parts = Some [TextPart (JStr (js ''Hel''))]\<rparr> \<and>
          candidates g2 = [c2] \<and>
          content c2 = \<lparr>role = Some (js ''model''), parts = Some [TextPart (JStr (js ''lo''))]\<rparr>"
      by (intro hello) simp_all
  next
    assume "(\<forall>l \<in> set ls. 10 \<notin> set l) \<and> 10 \<notin> set d \<and> trim d = js ''[DONE]'' \<and>
      fst (decode new_TextDecoder (concat cs')) = lines_text (ls @ [js ''data: '' @ d]) @ t"
    then show "generator parse new_TextDecoder [] (map Chunk cs' @ reads) =
          (fst (process_lines parse ls), Completed)"
      by (intro general [where d = d and t = t]) simp_all
  qed
qed

theorem terminator_ends_stream_witness:
  "(\<exists>g1 g2 c1 c2.
      generateContentStream (stream_platform hello_body) example_client
          \<lparr>contents = [example_turn]\<rparr> = Inr ([Yield g1, Yield g2], Completed) \<and>
      candidates g1 = [c1] \<and>
      content c1 = \<lparr>role = Some (js ''model''), parts = Some [TextPart (JStr (js ''Hel''))]\<rparr> \<and>
      candidates g2 = [c2] \<and>
      content c2 = \<lparr>role = Some (js ''model''), parts = Some [TextPart (JStr (js ''lo''))]\<rparr>) \<and>
   generator example_parse new_TextDecoder []
       (map Chunk after_done_body @ [ReadError (Error (js ''aborted''))]) =
     ([Yield hel_response], Completed)"
proof -
  have a: "array_map toOpenAIChatCompletionMessage (contents \<lparr>contents = [example_turn]\<rparr>) =
        Inr [\<lparr>msg_role = User, msg_content = js ''hi''\<rparr>] \<and>
      fetchAPI (stream_platform hello_body) example_client
          (chat_body (stream_platform hello_body) [\<lparr>msg_role = User, msg_content = js ''hi''\<rparr>] True) =
        Inr \<lparr>ok = True, status = 200, statusText = js ''OK'', body_text = [],
             body = Some (map Chunk hello_body)\<rparr> \<and>
      ok \<lparr>ok = True, status = 200, statusText = js ''OK'', body_text = [],
           body = Some (map Chunk hello_body)\<rparr> \<and>
      body \<lparr>ok = True, status = 200, statusText = js ''OK'', body_text = [],
             body = Some (map Chunk hello_body)\<rparr> = Some (map Chunk hello_body) \<and>
      JSON_parse (stream_platform hello_body) hel_payload =
        Inr (delta_chunk 0 (js ''Hel'') JNull) \<and>
      delta_content (delta_chunk 0 (js ''Hel'') JNull) = Inr (JStr (js ''Hel'')) \<and>
      JSON_parse (stream_platform hello_body) lo_payload =
        Inr (delta_chunk 0 (js ''lo'') (JStr (js ''stop''))) \<and>
      delta_content (delta_chunk 0 (js ''lo'') (JStr (js ''stop''))) = Inr (JStr (js ''lo'')) \<and>
      10 \<notin> set hel_payload \<and> 10 \<notin> set lo_payload \<and>
      trim hel_payload \<noteq> js ''[DONE]'' \<and> trim lo_payload \<noteq> js ''[DONE]'' \<and>
      fst (decode new_TextDecoder (concat hello_body)) =
        lines_text [js ''data: '' @ hel_payload, js ''data: '' @ lo_payload,
                    js ''data: '' @ js ''[DONE]'']"
    by (simp add: example_turn_translated [simplified] stream_platform_fetch stream_platform_parse
        example_parse_facts delta_chunk_content payload_facts example_bodies_decoded)
  have b: "(\<forall>l \<in> set [js ''data: '' @ hel_payload]. 10 \<notin> set l) \<and> 10 \<notin> set (js ''[DONE]'') \<and>
      trim (js ''[DONE]'') = js ''[DONE]'' \<and>
      fst (decode new_TextDecoder (concat after_done_body)) =
        lines_text ([js ''data: '' @ hel_payload] @ [js ''data: '' @ js ''[DONE]''])
          @ lines_text [js ''data: '' @ lo_payload]"
    by (simp add: payload_facts newline_not_in_prefix done_facts example_bodies_decoded)
  have line: "fst (process_lines example_parse [js ''data: '' @ hel_payload]) = [Yield hel_response]"
    by (simp add: payload_facts example_line_facts)
  note inst = terminator_ends_stream [where request = "\<lparr>contents = [example_turn]\<rparr>"
      and ms = "[\<lparr>msg_role = User, msg_content = js ''hi''\<rparr>]"
      and p = "stream_platform hello_body" and this = example_client
      and response = "\<lparr>ok = True, status = 200, statusText = js ''OK'', body_text = [],
                         body = Some (map Chunk hello_body)\<rparr>"
      and cs = hello_body
      and ?d1.0 = hel_payload and ?v1.0 = "delta_chunk 0 (js ''Hel'') JNull"
      and ?d2.0 = lo_payload and ?v2.0 = "delta_chunk 0 (js ''lo'') (JStr (js ''stop''))"
      and parse = example_parse
      and ls = "[js ''data: '' @ hel_payload]" and d = "js ''[DONE]''" and cs' = after_done_body
      and t = "lines_text [js ''data: '' @ lo_payload]"
      and reads = "[ReadError (Error (js ''aborted''))]"]
  from inst [THEN conjunct1, THEN mp, OF a] inst [THEN conjunct2, THEN mp, OF b] line
  show ?thesis by simp
qed

text \<open>
  C6.  When the body of an OK reply is a valid data line, a data line whose payload fails
  (it does not parse, or what it parses to cannot be read as a delta), a second valid
  data line and the line \<^verbatim>\<open>data: [DONE]\<close>, \<^verbatim>\<open>generateContentStream\<close> yields exactly the
  two responses of the valid lines, in order; the failure is caught and passed to
  \<^verbatim>\<open>console.error\<close> between them, and the generator ends normally.
\<close>

theorem malformed_line_skipped:
  assumes "array_map toOpenAIChatCompletionMessage (contents request) = Inr ms"
    and "fetchAPI p this (chat_body p ms True) = Inr response"
    and "ok response"
    and "body response = Some (map Chunk cs)"
    and "and_then (JSON_parse p d1) delta_response = Inr g1"
    and "and_then (JSON_parse p bad) delta_response = Inl e"
    and "and_then (JSON_parse p d2) delta_response = Inr g2"
    and "10 \<notin> set d1" and "10 \<notin> set bad" and "10 \<notin> set d2"
    and "trim d1 \<noteq> js ''[DONE]''" and "trim bad \<noteq> js ''[DONE]''" and "trim d2 \<noteq> js ''[DONE]''"
    and "fst (decode new_TextDecoder (concat cs)) =
           lines_text [js ''data: '' @ d1, js ''data: '' @ bad, js ''data: '' @ d2,
                       js ''data: '' @ js ''[DONE]'']"
  shows "generateContentStream p this request =
           Inr ([Yield g1, ConsoleError e, Yield g2], Completed) \<and>
         yielded [Yield g1, ConsoleError e, Yield g2] = [g1, g2]"
proof -
  let ?ls = "[js ''data: '' @ d1, js ''data: '' @ bad, js ''data: '' @ d2]"
  have nl: "\<forall>l \<in> set (?ls @ [js ''data: '' @ js ''[DONE]'']). 10 \<notin> set l"
    using assms(8-10) by (simp add: newline_not_in_prefix done_facts)
  have dec: "fst (decode new_TextDecoder (concat cs)) =
      lines_text (?ls @ [js ''data: '' @ js ''[DONE]'']) @ []"
    using assms(14) by simp
  have "generator (JSON_parse p) new_TextDecoder [] (map Chunk cs @ []) =
      (fst (process_lines (JSON_parse p) ?ls), Completed)"
    using generator_complete_lines [OF nl dec, of "JSON_parse p" "[]"]
    by (simp add: process_lines_done [OF done_facts(2), of "JSON_parse p" ?ls "[]", simplified])
  moreover have "fst (process_lines (JSON_parse p) ?ls) = [Yield g1, ConsoleError e, Yield g2]"
    using assms(5-7,11-13) by simp
  ultimately have "generator (JSON_parse p) new_TextDecoder [] (map Chunk cs) =
      ([Yield g1, ConsoleError e, Yield g2], Completed)"
    by simp
  with generateContentStream_ok [OF assms(1-4)] show ?thesis by simp
qed

theorem malformed_line_skipped_witness:
  "generateContentStream (stream_platform glitch_body) example_client \<lparr>contents = [example_turn]\<rparr> =
     Inr ([Yield hel_response, ConsoleError (SyntaxError truncated_payload), Yield lo_response],
          Completed) \<and>
   yielded [Yield hel_response, ConsoleError (SyntaxError truncated_payload), Yield lo_response] =
     [hel_response, lo_response]"
  by (rule malformed_line_skipped [where p = "stream_platform glitch_body" and cs = glitch_body,
        OF example_turn_translated stream_platform_fetch])
     (simp_all add: stream_platform_parse example_line_facts payload_facts example_bodies_decoded)

text \<open>
  C10 (as amended).  A data line whose payload parses as JSON but gives no delta to read
  the content from (the payload is not an object, it has no \<^verbatim>\<open>choices\<close>, \<^verbatim>\<open>choices\<close> has no
  first element, or the first element has no \<^verbatim>\<open>delta\<close> or a \<^verbatim>\<open>null\<close> one) yields nothing:
  the \<^verbatim>\<open>TypeError\<close> of the failed read is caught and passed to \<^verbatim>\<open>console.error\<close>, and the
  loop goes on with the next line, so a stream with such a line between other complete
  lines emits what the lines before it give, the caught error, and what the lines after
  it give, and ends normally.  Every other payload that parses is not skipped: the line
  yields one response, whose text is \<^verbatim>\<open>delta.content || ''\<close>.
\<close>

theorem payload_without_delta_skipped:
  "(parse d = Inr v \<and> lacks_readable_delta v \<and> trim d \<noteq> js ''[DONE]'' \<longrightarrow>
      (\<exists>k. process_lines parse ((js ''data: '' @ d) # rest) =
              (ConsoleError (TypeError k) # fst (process_lines parse rest),
               snd (process_lines parse rest)) \<and>
            ((\<forall>l \<in> set (before @ after). 10 \<notin> set l) \<and> 10 \<notin> set d \<and> 10 \<notin> set r \<and>
             \<not> snd (process_lines parse before) \<and>
             fst (decode new_TextDecoder (concat cs)) =
               lines_text (before @ [js ''data: '' @ d] @ after) @ r
             \<longrightarrow> generator parse new_TextDecoder [] (map Chunk cs) =
                   (fst (process_lines parse before) @
                      ConsoleError (TypeError k) # fst (process_lines parse after),
                    Completed)))) \<and>
   (parse d' = Inr v' \<and> \<not> lacks_readable_delta v' \<and> trim d' \<noteq> js ''[DONE]'' \<longrightarrow>
      (\<exists>g cand c. delta_content v' = Inr c \<and>
         process_lines parse ((js ''data: '' @ d') # rest') =
           (Yield g # fst (process_lines parse rest'), snd (process_lines parse rest')) \<and>
         candidates g = [cand] \<and>
         content cand = \<lparr>role = Some (js ''model''), parts = Some [TextPart (or_empty c)]\<rparr>))"
proof (intro conjI impI)
  assume h: "parse d = Inr v \<and> lacks_readable_delta v \<and> trim d \<noteq> js ''[DONE]''"
  then obtain k where k: "delta_response v = Inl (TypeError k)"
    using lacks_readable_delta_TypeError by blast
  then have caught: "and_then (parse d) delta_response = Inl (TypeError k)"
    using h by (simp add: and_then_def)
  from h have t: "trim d \<noteq> js ''[DONE]''" by simp
  have line: "process_lines parse ((js ''data: '' @ d) # rest') =
              (ConsoleError (TypeError k) # fst (process_lines parse rest'),
               snd (process_lines parse rest'))" for rest'
    by (rule process_lines_caught [where parse = parse and d = d, OF t caught])
  have stream: "generator parse new_TextDecoder [] (map Chunk cs) =
                   (fst (process_lines parse before) @
                      ConsoleError (TypeError k) # fst (process_lines parse after),
                    Completed)"
    if nl: "\<forall>l \<in> set (before @ after). 10 \<notin> set l" and d: "10 \<notin> set d" and r: "10 \<notin> set r"
      and open_before: "\<not> snd (process_lines parse before)"
      and dec: "fst (decode new_TextDecoder (concat cs)) =
               lines_text (before @ [js ''data: '' @ d] @ after) @ r"
  proof -
    have nl': "\<forall>l \<in> set (before @ [js ''data: '' @ d] @ after). 10 \<notin> set l"
      using nl d by (auto simp: newline_not_in_prefix)
    have "generator parse new_TextDecoder [] (map Chunk cs @ []) =
        (fst (process_lines parse (before @ [js ''data: '' @ d] @ after)), Completed)"
      using generator_complete_lines [OF nl' dec, of parse "[]"] r
      by (simp add: split_newline_no_newline split: prod.splits)
    moreover have "fst (process_lines parse (before @ (js ''data: '' @ d) # after)) =
        fst (process_lines parse before) @
          ConsoleError (TypeError k) # fst (process_lines parse after)"
      using open_before
      by (cases "process_lines parse before")
         (simp add: process_lines_append line del: process_lines.simps)
    ultimately show ?thesis by simp
  qed
  show "\<exists>k. process_lines parse ((js ''data: '' @ d) # rest) =
              (ConsoleError (TypeError k) # fst (process_lines parse rest),
               snd (process_lines parse rest)) \<and>
            ((\<forall>l \<in> set (before @ after). 10 \<notin> set l) \<and> 10 \<notin> set d \<and> 10 \<notin> set r \<and>
             \<not> snd (process_lines parse before) \<and>
             fst (decode new_TextDecoder (concat cs)) =
               lines_text (before @ [js ''data: '' @ d] @ after) @ r
             \<longrightarrow> generator parse new_TextDecoder [] (map Chunk cs) =
                   (fst (process_lines parse before) @
                      ConsoleError (TypeError k) # fst (process_lines parse after),
                    Completed))"
  proof (intro exI [of _ k] conjI impI)
    show "process_lines parse ((js ''data: '' @ d) # rest) =
              (ConsoleError (TypeError k) # fst (process_lines parse rest),
               snd (process_lines parse rest))"
      by (rule line)
  next
    assume "(\<forall>l \<in> set (before @ after). 10 \<notin> set l) \<and> 10 \<notin> set d \<and> 10 \<notin> set r \<and>
             \<not> snd (process_lines parse before) \<and>
             fst (decode new_TextDecoder (concat cs)) =
               lines_text (before @ [js ''data: '' @ d] @ after) @ r"
    then show "generator parse new_TextDecoder [] (map Chunk cs) =
                   (fst (process_lines parse before) @
                      ConsoleError (TypeError k) # fst (process_lines parse after),
                    Completed)"
      by (intro stream) simp_all
  qed
next
  assume h: "parse d' = Inr v' \<and> \<not> lacks_readable_delta v' \<and> trim d' \<noteq> js ''[DONE]''"
  then obtain c where c: "delta_content v' = Inr c"
    using readable_delta_content by blast
  then obtain i f where "delta_response v' = Inr (response_literal i (or_empty c) f)"
    using delta_response_content by blast
  with h have "and_then (parse d') delta_response = Inr (response_literal i (or_empty c) f)"
    by (simp add: and_then_def)
  with h have "process_lines parse ((js ''data: '' @ d') # rest') =
      (Yield (response_literal i (or_empty c) f) # fst (process_lines parse rest'),
       snd (process_lines parse rest'))"
    by (simp split: prod.splits)
  with c show "\<exists>g cand c. delta_content v' = Inr c \<and>
         process_lines parse ((js ''data: '' @ d') # rest') =
           (Yield g # fst (process_lines parse rest'), snd (process_lines parse rest')) \<and>
         candidates g = [cand] \<and>
         content cand = \<lparr>role = Some (js ''model''), parts = Some [TextPart (or_empty c)]\<rparr>"
    by (simp add: response_literal_def)
qed

theorem payload_without_delta_skipped_witness:
  "generator example_parse new_TextDecoder [] (map Chunk unstructured_body) =
     ([Yield hel_response, ConsoleError (TypeError (js ''delta'')), Yield lo_response],
      Completed) \<and>
   (\<exists>g cand c. delta_content (delta_chunk 0 (js ''Hel'') JNull) = Inr c \<and>
      process_lines example_parse [js ''data: '' @ hel_payload] =
        (Yield g # fst (process_lines example_parse []), snd (process_lines example_parse [])) \<and>
      candidates g = [cand] \<and>
      content cand = \<lparr>role = Some (js ''model''), parts = Some [TextPart (or_empty c)]\<rparr>)"
proof -
  note inst = payload_without_delta_skipped [where parse = example_parse
        and d = empty_choices_payload and rest = "[]"
        and v = "JObj [(js ''id'', JStr (js ''chatcmpl-1'')), (js ''choices'', JArr [])]"
        and before = "[js ''data: '' @ hel_payload]" and after = "[js ''data: '' @ lo_payload]"
        and r = "[]" and cs = unstructured_body
        and d' = hel_payload and v' = "delta_chunk 0 (js ''Hel'') JNull" and rest' = "[]"]
  have skipped: "example_parse empty_choices_payload =
        Inr (JObj [(js ''id'', JStr (js ''chatcmpl-1'')), (js ''choices'', JArr [])]) \<and>
      lacks_readable_delta (JObj [(js ''id'', JStr (js ''chatcmpl-1'')), (js ''choices'', JArr [])]) \<and>
      trim empty_choices_payload \<noteq> js ''[DONE]''"
  proof (intro conjI)
    show "lacks_readable_delta
        (JObj [(js ''id'', JStr (js ''chatcmpl-1'')), (js ''choices'', JArr [])])"
      by (simp add: js_def)
  qed (simp_all add: example_parse_facts payload_facts)
  have kept: "example_parse hel_payload = Inr (delta_chunk 0 (js ''Hel'') JNull) \<and>
      \<not> lacks_readable_delta (delta_chunk 0 (js ''Hel'') JNull) \<and>
      trim hel_payload \<noteq> js ''[DONE]''"
  proof (intro conjI)
    show "\<not> lacks_readable_delta (delta_chunk 0 (js ''Hel'') JNull)"
      by (simp add: delta_chunk_def js_def)
  qed (simp_all add: example_parse_facts payload_facts)
  from inst [THEN conjunct1, THEN mp, OF skipped]
  obtain k where both:
    "process_lines example_parse ((js ''data: '' @ empty_choices_payload) # []) =
          (ConsoleError (TypeError k) # fst (process_lines example_parse []),
           snd (process_lines example_parse [])) \<and>
     ((\<forall>l \<in> set ([js ''data: '' @ hel_payload] @ [js ''data: '' @ lo_payload]). 10 \<notin> set l) \<and>
        10 \<notin> set empty_choices_payload \<and> 10 \<notin> set ([] :: jsstring) \<and>
        \<not> snd (process_lines example_parse [js ''data: '' @ hel_payload]) \<and>
        fst (decode new_TextDecoder (concat unstructured_body)) =
          lines_text ([js ''data: '' @ hel_payload] @ [js ''data: '' @ empty_choices_payload]
                      @ [js ''data: '' @ lo_payload]) @ []
        \<longrightarrow> generator example_parse new_TextDecoder [] (map Chunk unstructured_body) =
              (fst (process_lines example_parse [js ''data: '' @ hel_payload]) @
                 ConsoleError (TypeError k) #
                 fst (process_lines example_parse [js ''data: '' @ lo_payload]),
               Completed))"
    by (rule exE)
  note 1 = both [THEN conjunct1] and 2 = both [THEN conjunct2]
  from 1 have k: "k = js ''delta''"
    by (simp add: payload_facts empty_choices_line)
  have hyp: "(\<forall>l \<in> set ([js ''data: '' @ hel_payload] @ [js ''data: '' @ lo_payload]). 10 \<notin> set l) \<and>
        10 \<notin> set empty_choices_payload \<and> 10 \<notin> set ([] :: jsstring) \<and>
        \<not> snd (process_lines example_parse [js ''data: '' @ hel_payload]) \<and>
        fst (decode new_TextDecoder (concat unstructured_body)) =
          lines_text ([js ''data: '' @ hel_payload] @ [js ''data: '' @ empty_choices_payload]
                      @ [js ''data: '' @ lo_payload]) @ []"
    by (simp add: payload_facts newline_not_in_prefix example_line_facts example_bodies_decoded)
  from 2 [THEN mp, OF hyp] k
  have "generator example_parse new_TextDecoder [] (map Chunk unstructured_body) =
     ([Yield hel_response, ConsoleError (TypeError (js ''delta'')), Yield lo_response], Completed)"
    by (simp add: payload_facts example_line_facts)
  with inst [THEN conjunct2, THEN mp, OF kept] show ?thesis
    by (intro conjI)
qed

text \<open>
  A first choice without a delta object, here with the string \<^verbatim>\<open>"abc"\<close> in its place, is not
  skipped: reading \<^verbatim>\<open>content\<close> of a string gives \<^verbatim>\<open>undefined\<close>, and the line yields a
  response with the empty text.
\<close>

theorem string_delta_counterexample:
  "generator string_delta_parse new_TextDecoder [] (map Chunk string_delta_body) =
     ([Yield (response_literal (JNum 0) (JStr []) JNull)], Completed) \<and>
   candidates (response_literal (JNum 0) (JStr []) JNull) =
     [\<lparr>index = JNum 0,
       content = \<lparr>role = Some (js ''model''), parts = Some [TextPart (JStr [])]\<rparr>,
       finishReason = JNull, safetyRatings = [], citationMetadata = Undefined\<rparr>]"
proof -
  have nl: "\<forall>l \<in> set [js ''data: '' @ string_delta_payload]. 10 \<notin> set l"
    by (simp add: newline_not_in_prefix string_delta_facts)
  have line: "process_lines string_delta_parse [js ''data: '' @ string_delta_payload] =
      ([Yield (response_literal (JNum 0) (JStr []) JNull)], False)"
    by (simp add: string_delta_facts)
  have "generator string_delta_parse new_TextDecoder [] (map Chunk string_delta_body @ []) =
      ([Yield (response_literal (JNum 0) (JStr []) JNull)], Completed)"
    using generator_complete_lines [OF nl string_delta_facts(3), of string_delta_parse "[]"]
    by (simp add: line del: process_lines.simps)
  then show ?thesis
    by (simp add: response_literal_def)
qed

end
